theory Spec2Isabelle
  imports Main
begin

section \<open>JavaScript values\<close>

text \<open>
  \<open>json\<close> is what \<open>JSON.parse\<close> can produce. Numbers are kept as integers; the parser
  only ever tests a number for being zero (truthiness). An object is the list of its
  own properties, the first binding of a key being the one that is read. A \<open>jsvalue\<close>
  is what a property read can yield: \<open>undefined\<close>, a JSON value, or a reference to a
  built-in function or object, known by its name (\<open>Object\<close>,
  \<open>Object.prototype.toString\<close>).
\<close>

datatype json =
    JNull
  | JBool bool
  | JNum int
  | JStr string
  | JArr "json list"
  | JObj "(string \<times> json) list"

datatype jsvalue =
    JUndefined
  | JSON json
  | JBuiltin string

text \<open>JavaScript's ToBoolean on a JSON value.\<close>

fun truthy :: "json \<Rightarrow> bool" where
  "truthy JNull = False"
| "truthy (JBool b) = b"
| "truthy (JNum n) = (n \<noteq> 0)"
| "truthy (JStr s) = (s \<noteq> [])"
| "truthy (JArr xs) = True"
| "truthy (JObj ps) = True"

section \<open>The prototype objects\<close>

text \<open>
  A property read \<open>obj[key]\<close> that finds no own property goes on to the prototype
  chain: \<open>Object.prototype\<close> for an ordinary object, \<open>Array.prototype\<close>,
  \<open>String.prototype\<close>, \<open>Number.prototype\<close> or \<open>Boolean.prototype\<close> and then
  \<open>Object.prototype\<close> for the other values. These objects are shared by the whole
  program and can be written to by any part of it, so their properties are state:
  \<open>prototypes\<close> gives, for each of them, the properties it has at the moment. A
  property is a built-in function, the built-in accessor \<open>__proto__\<close> (which answers
  with the receiver's prototype), or a primitive value that some program stored there.
  Accessors defined by programs are not covered.
\<close>

datatype primitive =
    PUndefined
  | PNull
  | PBool bool
  | PNum int
  | PStr string

fun primitive_js :: "primitive \<Rightarrow> jsvalue" where
  "primitive_js PUndefined = JUndefined"
| "primitive_js PNull = JSON JNull"
| "primitive_js (PBool b) = JSON (JBool b)"
| "primitive_js (PNum n) = JSON (JNum n)"
| "primitive_js (PStr s) = JSON (JStr s)"

datatype property =
    Primitive primitive
  | Function string
  | ProtoAccessor

datatype prototype =
    ObjectPrototype
  | ArrayPrototype
  | StringPrototype
  | NumberPrototype
  | BooleanPrototype

type_synonym prototypes = "prototype \<Rightarrow> string \<rightharpoonup> property"

fun prototype_name :: "prototype \<Rightarrow> string" where
  "prototype_name ObjectPrototype = ''Object.prototype''"
| "prototype_name ArrayPrototype = ''Array.prototype''"
| "prototype_name StringPrototype = ''String.prototype''"
| "prototype_name NumberPrototype = ''Number.prototype''"
| "prototype_name BooleanPrototype = ''Boolean.prototype''"

text \<open>The value of a property found on the chain of a receiver whose prototype is \<open>proto\<close>.\<close>

fun property_value :: "prototype \<Rightarrow> property \<Rightarrow> jsvalue" where
  "property_value proto (Primitive p) = primitive_js p"
| "property_value proto (Function f) = JBuiltin f"
| "property_value proto ProtoAccessor = JBuiltin (prototype_name proto)"

text \<open>The read on the chain that starts at \<open>proto\<close> and ends at \<open>Object.prototype\<close>.\<close>

definition inherited :: "prototypes \<Rightarrow> prototype \<Rightarrow> string \<Rightarrow> jsvalue" where
  "inherited protos proto k =
     (case protos proto k of
        Some p \<Rightarrow> property_value proto p
      | None \<Rightarrow>
          (if proto = ObjectPrototype then JUndefined
           else (case protos ObjectPrototype k of
                   Some p \<Rightarrow> property_value proto p
                 | None \<Rightarrow> JUndefined)))"

section \<open>Property reads\<close>

text \<open>Decimal rendering of an array index, as JavaScript writes property keys.\<close>

definition digit_char :: "nat \<Rightarrow> char" where
  "digit_char d = ''0123456789'' ! d"

function string_of_nat :: "nat \<Rightarrow> string" where
  "string_of_nat n =
     (if n < 10 then [digit_char n]
      else string_of_nat (n div 10) @ [digit_char (n mod 10)])"
  by pat_completeness auto
termination
  by (relation "measure id") auto

declare string_of_nat.simps [simp del]

definition index_of :: "string \<Rightarrow> nat \<Rightarrow> nat option" where
  "index_of k n = List.find (\<lambda>i. string_of_nat i = k) [0..<n]"

text \<open>
  \<open>body[name]\<close> on a parsed body: the own property if there is one (the entries of an
  object, the elements and the \<open>length\<close> of an array or a string), the prototype chain
  otherwise. The source guards the read with \<open>body ? ... : undefined\<close>, so it is never
  applied to \<open>null\<close> (where JavaScript raises a TypeError); that row is only there for
  totality.
\<close>

fun getProperty :: "prototypes \<Rightarrow> json \<Rightarrow> string \<Rightarrow> jsvalue" where
  "getProperty protos (JObj ps) k =
     (case map_of ps k of
        Some v \<Rightarrow> JSON v
      | None \<Rightarrow> inherited protos ObjectPrototype k)"
| "getProperty protos (JArr xs) k =
     (if k = ''length'' then JSON (JNum (int (length xs)))
      else case index_of k (length xs) of
             Some i \<Rightarrow> JSON (xs ! i)
           | None \<Rightarrow> inherited protos ArrayPrototype k)"
| "getProperty protos (JStr s) k =
     (if k = ''length'' then JSON (JNum (int (length s)))
      else case index_of k (length s) of
             Some i \<Rightarrow> JSON (JStr [s ! i])
           | None \<Rightarrow> inherited protos StringPrototype k)"
| "getProperty protos (JNum n) k = inherited protos NumberPrototype k"
| "getProperty protos (JBool b) k = inherited protos BooleanPrototype k"
| "getProperty protos JNull k = JUndefined"

text \<open>
  A string-keyed object such as \<open>request.query\<close> or \<open>request.headers\<close>: its own
  properties, and whether it is an ordinary object, whose prototype is
  \<open>Object.prototype\<close>, or one made without a prototype (\<open>Object.create(null)\<close>).
\<close>

record 'v js_object =
  own :: "string \<rightharpoonup> 'v"
  ordinary :: bool

type_synonym dict = "jsvalue js_object"

definition lookup :: "prototypes \<Rightarrow> dict \<Rightarrow> string \<Rightarrow> jsvalue" where
  "lookup protos obj k =
     (case own obj k of
        Some v \<Rightarrow> v
      | None \<Rightarrow> if ordinary obj then inherited protos ObjectPrototype k else JUndefined)"

text \<open>\<open>String.prototype.toLowerCase\<close> on the ASCII letters.\<close>

definition lower_char :: "char \<Rightarrow> char" where
  "lower_char c =
     (case map_of (zip ''ABCDEFGHIJKLMNOPQRSTUVWXYZ'' ''abcdefghijklmnopqrstuvwxyz'') c of
        None \<Rightarrow> c
      | Some l \<Rightarrow> l)"

definition toLowerCase :: "string \<Rightarrow> string" where
  "toLowerCase s = map lower_char s"

section \<open>OpenAPI operation specs\<close>

text \<open>
  \<open>ParameterObject\<close>: the parser reads \<open>name\<close> and \<open>in\<close> (here \<open>in_loc\<close>, \<open>in\<close> being
  reserved); the remaining fields are for the deserializer and live in the record's
  extension. An entry of \<open>operationSpec.parameters\<close> is either such an object or a
  reference object, told apart by \<open>'$ref' in paramSpec\<close>. The spec objects are typed
  records: their declared fields are read as declared. The reads with a computed key,
  on the request's dictionaries and on the body, are the ones that reach the
  prototype chain.
\<close>

record ParameterObject =
  name :: string
  in_loc :: string

datatype parameter =
    Reference string
  | Parameter ParameterObject

record OperationObject =
  parameters :: "parameter list option"

section \<open>Requests, routes and errors\<close>

text \<open>A header of Node's \<open>IncomingMessage\<close> is a string or a list of strings.\<close>

datatype header_value =
    Single string
  | Multiple "string list"

fun header_js :: "header_value \<Rightarrow> jsvalue" where
  "header_js (Single s) = JSON (JStr s)"
| "header_js (Multiple xs) = JSON (JArr (map JStr xs))"

record ParsedRequest =
  headers :: "header_value js_object"
  query :: dict

definition header_lookup :: "prototypes \<Rightarrow> header_value js_object \<Rightarrow> string \<Rightarrow> jsvalue" where
  "header_lookup protos h k =
     (case own h k of
        Some v \<Rightarrow> header_js v
      | None \<Rightarrow> if ordinary h then inherited protos ObjectPrototype k else JUndefined)"

record ResolvedRoute =
  spec :: OperationObject
  pathParams :: dict

text \<open>
  Errors. \<open>new Error(msg)\<close> has no status code; the two \<open>http-errors\<close> constructors the
  parser uses carry 415 and 501. \<open>Foreign\<close> stands for an error raised by a library the
  parser calls (the JSON body reader, the deserializer).
\<close>

datatype error_class = PlainError | UnsupportedMediaTypeError | NotImplementedError | Foreign

record HttpError =
  errorClass :: error_class
  statusCode :: "nat option"
  message :: string

definition Error :: "string \<Rightarrow> HttpError" where
  "Error msg = \<lparr>errorClass = PlainError, statusCode = None, message = msg\<rparr>"

definition UnsupportedMediaType :: "string \<Rightarrow> HttpError" where
  "UnsupportedMediaType msg =
     \<lparr>errorClass = UnsupportedMediaTypeError, statusCode = Some 415, message = msg\<rparr>"

definition NotImplemented :: "string \<Rightarrow> HttpError" where
  "NotImplemented msg =
     \<lparr>errorClass = NotImplementedError, statusCode = Some 501, message = msg\<rparr>"

text \<open>What the parser does to the request, in order; a promise is its settled outcome.\<close>

datatype event = ReadContentType | ParseJsonBody

type_synonym 'a promise = "event list \<times> (HttpError + 'a)"

text \<open>
  The promisified \<open>body/json\<close> resolves with the parsed body or rejects; \<open>MaybeBody\<close> is
  such a body or \<open>undefined\<close> (\<open>None\<close>). \<open>deserialize\<close> returns a value or throws.
\<close>

type_synonym json_reader = "ParsedRequest \<Rightarrow> HttpError + json"

type_synonym MaybeBody = "json option"

type_synonym deserializer = "jsvalue \<Rightarrow> ParameterObject \<Rightarrow> HttpError + jsvalue"

fun body_js :: "MaybeBody \<Rightarrow> jsvalue" where
  "body_js None = JUndefined"
| "body_js (Some b) = JSON b"

section \<open>The argument parser\<close>

text \<open>
  \<open>getContentType\<close>: \<open>req.headers['content-type']\<close>, kept when it is a string, its first
  element when it is an array. An inherited value is a primitive or a built-in, so
  only a string counts there.
\<close>

definition getContentType :: "prototypes \<Rightarrow> ParsedRequest \<Rightarrow> string option" where
  "getContentType protos req =
     (case own (headers req) ''content-type'' of
        Some (Single val) \<Rightarrow> Some val
      | Some (Multiple val) \<Rightarrow> (case val of [] \<Rightarrow> None | v # _ \<Rightarrow> Some v)
      | None \<Rightarrow>
          (if ordinary (headers req)
           then (case inherited protos ObjectPrototype ''content-type'' of
                   JSON (JStr val) \<Rightarrow> Some val
                 | _ \<Rightarrow> None)
           else None))"

text \<open>\<open>/json/.test(s)\<close>: does \<open>json\<close> occur in \<open>s\<close>?\<close>

fun test_json :: "string \<Rightarrow> bool" where
  "test_json [] = False"
| "test_json (c # cs) = (take 4 (c # cs) = ''json'' \<or> test_json cs)"

fun hasArgumentsFromBody_loop :: "parameter list \<Rightarrow> bool" where
  "hasArgumentsFromBody_loop [] = False"
| "hasArgumentsFromBody_loop (Reference r # ps) = hasArgumentsFromBody_loop ps"
| "hasArgumentsFromBody_loop (Parameter p # ps) =
     (if in_loc p = ''formData'' \<or> in_loc p = ''body'' then True
      else hasArgumentsFromBody_loop ps)"

definition hasArgumentsFromBody :: "OperationObject \<Rightarrow> bool" where
  "hasArgumentsFromBody operationSpec =
     (case parameters operationSpec of
        None \<Rightarrow> False
      | Some ps \<Rightarrow> if length ps = 0 then False else hasArgumentsFromBody_loop ps)"

text \<open>
  \<open>parseJsonBody\<close> is the promisified \<open>body/json\<close>: it reads the request stream and
  parses it, and is a parameter here.
\<close>

definition parseJsonBody_catch :: "json_reader \<Rightarrow> ParsedRequest \<Rightarrow> HttpError + MaybeBody" where
  "parseJsonBody_catch parseJsonBody request =
     (case parseJsonBody request of
        Inl err \<Rightarrow> Inl (err\<lparr>statusCode := Some 400\<rparr>)
      | Inr b \<Rightarrow> Inr (Some b))"

text \<open>\<open>contentType && !/json/.test(contentType)\<close>: a missing or empty string is falsy.\<close>

definition unsupported_contentType :: "string option \<Rightarrow> bool" where
  "unsupported_contentType contentType =
     (case contentType of None \<Rightarrow> False | Some ct \<Rightarrow> ct \<noteq> [] \<and> \<not> test_json ct)"

definition contentType_text :: "string option \<Rightarrow> string" where
  "contentType_text contentType = (case contentType of None \<Rightarrow> ''undefined'' | Some ct \<Rightarrow> ct)"

definition loadRequestBodyIfNeeded ::
  "prototypes \<Rightarrow> json_reader \<Rightarrow> OperationObject \<Rightarrow> ParsedRequest \<Rightarrow> MaybeBody promise" where
  "loadRequestBodyIfNeeded protos parseJsonBody operationSpec request =
     (if \<not> hasArgumentsFromBody operationSpec then ([], Inr None)
      else
        (let contentType = getContentType protos request
         in if unsupported_contentType contentType
            then ([ReadContentType],
                  Inl (UnsupportedMediaType
                         (''Content-type '' @ contentType_text contentType
                            @ '' is not supported.'')))
            else ([ReadContentType, ParseJsonBody],
                  parseJsonBody_catch parseJsonBody request)))"

text \<open>The \<open>switch (spec.in)\<close>: the raw value handed to \<open>addArg\<close>, or the default's throw.\<close>

definition switch_in ::
  "prototypes \<Rightarrow> ParsedRequest \<Rightarrow> dict \<Rightarrow> MaybeBody \<Rightarrow> ParameterObject
     \<Rightarrow> HttpError + jsvalue" where
  \<open>switch_in protos request pathPs body p =
     (if in_loc p = ''query'' then Inr (lookup protos (query request) (name p))
      else if in_loc p = ''path'' then Inr (lookup protos pathPs (name p))
      else if in_loc p = ''header''
        then Inr (header_lookup protos (headers request) (toLowerCase (name p)))
      else if in_loc p = ''formData''
        then Inr (case body of
                    None \<Rightarrow> JUndefined
                  | Some b \<Rightarrow> if truthy b then getProperty protos b (name p) else JUndefined)
      else if in_loc p = ''body'' then Inr (body_js body)
      else Inl (NotImplemented
                  (''Parameters with "in: '' @ in_loc p @ ''" are not supported yet.'')))\<close>

text \<open>
  One turn of the \<open>for\<close> loop: the value that \<open>addArg\<close> pushes, or the error thrown.
  \<open>deserialize\<close> comes from a module outside this file and is a parameter; a throw
  inside it leaves the loop like any other.
\<close>

fun loop_body ::
  "prototypes \<Rightarrow> deserializer \<Rightarrow> ParsedRequest \<Rightarrow> dict \<Rightarrow> MaybeBody \<Rightarrow> parameter
     \<Rightarrow> HttpError + jsvalue" where
  "loop_body protos deserialize request pathPs body (Reference r) =
     Inl (Error ''$ref parameters are not supported yet.'')"
| "loop_body protos deserialize request pathPs body (Parameter p) =
     (case switch_in protos request pathPs body p of
        Inl err \<Rightarrow> Inl err
      | Inr val \<Rightarrow> deserialize val p)"

text \<open>The loop itself, with \<open>args\<close> as accumulator: \<open>args.push\<close> appends.\<close>

fun buildOperationArguments_loop ::
  "prototypes \<Rightarrow> deserializer \<Rightarrow> ParsedRequest \<Rightarrow> dict \<Rightarrow> MaybeBody \<Rightarrow> parameter list
     \<Rightarrow> jsvalue list \<Rightarrow> HttpError + jsvalue list" where
  "buildOperationArguments_loop protos deserialize request pathPs body [] args = Inr args"
| "buildOperationArguments_loop protos deserialize request pathPs body (paramSpec # ps) args =
     (case loop_body protos deserialize request pathPs body paramSpec of
        Inl err \<Rightarrow> Inl err
      | Inr v \<Rightarrow>
          buildOperationArguments_loop protos deserialize request pathPs body ps (args @ [v]))"

definition parameters_or_empty :: "OperationObject \<Rightarrow> parameter list" where
  "parameters_or_empty operationSpec =
     (case parameters operationSpec of None \<Rightarrow> [] | Some ps \<Rightarrow> ps)"

definition buildOperationArguments ::
  "prototypes \<Rightarrow> deserializer \<Rightarrow> OperationObject \<Rightarrow> ParsedRequest \<Rightarrow> dict \<Rightarrow> MaybeBody
     \<Rightarrow> HttpError + jsvalue list" where
  "buildOperationArguments protos deserialize operationSpec request pathPs body =
     buildOperationArguments_loop protos deserialize request pathPs body
       (parameters_or_empty operationSpec) []"

definition parseOperationArgs ::
  "prototypes \<Rightarrow> deserializer \<Rightarrow> json_reader \<Rightarrow> ParsedRequest \<Rightarrow> ResolvedRoute
     \<Rightarrow> jsvalue list promise" where
  "parseOperationArgs protos deserialize parseJsonBody request route =
     (let operationSpec = spec route;
          pathPs = pathParams route;
          (trace, loaded) = loadRequestBodyIfNeeded protos parseJsonBody operationSpec request
      in case loaded of
           Inl err \<Rightarrow> (trace, Inl err)
         | Inr body \<Rightarrow>
             (trace,
              buildOperationArguments protos deserialize operationSpec request pathPs body))"

section \<open>The same loop over an explicit store\<close>

text \<open>
  To speak about what a call reads and writes, the objects the function is handed, the
  prototype objects and the arrays of the heap are put into a state.
  \<open>const args = []\<close> allocates a new array at the next free address, \<open>args.push(v)\<close>
  writes to that array, every other statement of the function only reads.
\<close>

record js_state =
  st_operationSpec :: OperationObject
  st_request :: ParsedRequest
  st_pathParams :: dict
  st_body :: MaybeBody
  st_prototypes :: prototypes
  st_arrays :: "jsvalue list list"

definition new_array :: "js_state \<Rightarrow> js_state \<times> nat" where
  "new_array s = (s\<lparr>st_arrays := st_arrays s @ [[]]\<rparr>, length (st_arrays s))"

definition array_push :: "nat \<Rightarrow> jsvalue \<Rightarrow> js_state \<Rightarrow> js_state" where
  "array_push a v s = s\<lparr>st_arrays := (st_arrays s)[a := st_arrays s ! a @ [v]]\<rparr>"

fun buildOperationArguments_loop_st ::
  "deserializer \<Rightarrow> nat \<Rightarrow> parameter list \<Rightarrow> js_state \<Rightarrow> js_state \<times> (HttpError + nat)" where
  "buildOperationArguments_loop_st deserialize args [] s = (s, Inr args)"
| "buildOperationArguments_loop_st deserialize args (paramSpec # ps) s =
     (case loop_body (st_prototypes s) deserialize (st_request s) (st_pathParams s) (st_body s)
             paramSpec of
        Inl err \<Rightarrow> (s, Inl err)
      | Inr v \<Rightarrow> buildOperationArguments_loop_st deserialize args ps (array_push args v s))"

definition buildOperationArguments_st ::
  "deserializer \<Rightarrow> js_state \<Rightarrow> js_state \<times> (HttpError + nat)" where
  "buildOperationArguments_st deserialize s =
     (let (s1, args) = new_array s
      in buildOperationArguments_loop_st deserialize args
           (parameters_or_empty (st_operationSpec s1)) s1)"

text \<open>What the caller sees: the error thrown, or the contents of the returned array.\<close>

definition returned :: "js_state \<times> (HttpError + nat) \<Rightarrow> HttpError + jsvalue list" where
  "returned r = (case snd r of Inl err \<Rightarrow> Inl err | Inr a \<Rightarrow> Inr (st_arrays (fst r) ! a))"

section \<open>Authentication metadata through the context\<close>

text \<open>
  Modelled from the spec: the \<open>@authenticate\<close> decorator, \<open>AuthMetadataProvider\<close> and
  the dependency-injection \<open>Context\<close> (\<open>bind\<close>, \<open>to\<close>, \<open>toProvider\<close>, \<open>get\<close>) are not
  among the sources at hand; only their unit test is. The decorator records, on the
  class and under the method's name, the strategy name and the options it was given;
  the provider is constructed from the controller class and the method name bound in
  the context and its \<open>value()\<close> is the metadata recorded for that method, or
  \<open>undefined\<close> (here \<open>None\<close>) when there is none.
\<close>

record AuthenticationMetadata =
  strategy :: string
  options :: jsvalue

record controller_class =
  className :: string
  authMetadata :: "string \<rightharpoonup> AuthenticationMetadata"

text \<open>
  Modelled from the spec: the decorator \<open>@authenticate(strategyName, options)\<close> on a
  method, whose source is missing. It records the strategy name and the options it was
  given under the method's name.
\<close>

definition authenticate ::
  "string \<Rightarrow> jsvalue \<Rightarrow> string \<Rightarrow> controller_class \<Rightarrow> controller_class" where
  "authenticate strategyName opts methodName target =
     target\<lparr>authMetadata :=
       (authMetadata target)(methodName \<mapsto> \<lparr>strategy = strategyName, options = opts\<rparr>)\<rparr>"

text \<open>
  Modelled from the spec: \<open>AuthMetadataProvider.value()\<close>, whose source is missing. Given
  a class/method pair it returns the decorator metadata of that method.
\<close>

definition AuthMetadataProvider_value ::
  "controller_class \<Rightarrow> string \<Rightarrow> AuthenticationMetadata option" where
  "AuthMetadataProvider_value controllerClass methodName =
     authMetadata controllerClass methodName"

text \<open>
  Modelled from the spec: the keys, values and bindings of the dependency-injection
  context, whose source is missing. \<open>bind(key).to(value)\<close> binds a constant,
  \<open>bind(key).toProvider(cls)\<close> binds a provider class.
\<close>

datatype binding_key =
    CONTROLLER_CLASS
  | CONTROLLER_METHOD_NAME
  | CONTROLLER_METHOD_META

datatype bound_value =
    VClass controller_class
  | VString string
  | VMetadata "AuthenticationMetadata option"

datatype provider = AuthMetadataProvider

datatype binding =
    To bound_value
  | ToProvider provider

datatype resolution_error = NotBound binding_key | WrongType binding_key

type_synonym di_context = "binding_key \<rightharpoonup> binding"

text \<open>
  Modelled from the spec: \<open>context.bind(key).to(value)\<close> and
  \<open>context.bind(key).toProvider(cls)\<close>, whose source is missing.
\<close>

definition bind_to :: "binding_key \<Rightarrow> bound_value \<Rightarrow> di_context \<Rightarrow> di_context" where
  "bind_to k v ctx = ctx(k \<mapsto> To v)"

definition bind_toProvider :: "binding_key \<Rightarrow> provider \<Rightarrow> di_context \<Rightarrow> di_context" where
  "bind_toProvider k p ctx = ctx(k \<mapsto> ToProvider p)"

text \<open>
  Modelled from the spec: \<open>context.get(key)\<close>. A constant binding resolves to its value;
  a provider binding constructs the provider from the controller class and method name
  bound in the same context and resolves to its \<open>value()\<close>.
\<close>

definition context_get :: "di_context \<Rightarrow> binding_key \<Rightarrow> resolution_error + bound_value" where
  "context_get ctx k =
     (case ctx k of
        None \<Rightarrow> Inl (NotBound k)
      | Some (To v) \<Rightarrow> Inr v
      | Some (ToProvider AuthMetadataProvider) \<Rightarrow>
          (case ctx CONTROLLER_CLASS of
             None \<Rightarrow> Inl (NotBound CONTROLLER_CLASS)
           | Some (ToProvider q) \<Rightarrow> Inl (WrongType CONTROLLER_CLASS)
           | Some (To (VClass c)) \<Rightarrow>
               (case ctx CONTROLLER_METHOD_NAME of
                  None \<Rightarrow> Inl (NotBound CONTROLLER_METHOD_NAME)
                | Some (To (VString m)) \<Rightarrow> Inr (VMetadata (AuthMetadataProvider_value c m))
                | Some other \<Rightarrow> Inl (WrongType CONTROLLER_METHOD_NAME))
           | Some (To other) \<Rightarrow> Inl (WrongType CONTROLLER_CLASS)))"

section \<open>Vocabulary and example inputs\<close>

text \<open>The \<open>case\<close> labels of the \<open>switch\<close>.\<close>

abbreviation supported_locations :: "string set" where
  "supported_locations \<equiv> {''query'', ''path'', ''header'', ''formData'', ''body''}"


text \<open>
  Prototype objects for the examples: the properties of \<open>Object.prototype\<close> and some
  methods of the others. Which methods a runtime has depends on its version; the
  theorems hold for every table.
\<close>

definition example_prototypes :: prototypes where
  "example_prototypes proto =
     (case proto of
        ObjectPrototype \<Rightarrow>
          [''constructor'' \<mapsto> Function ''Object'',
           ''toString'' \<mapsto> Function ''Object.prototype.toString'',
           ''toLocaleString'' \<mapsto> Function ''Object.prototype.toLocaleString'',
           ''valueOf'' \<mapsto> Function ''Object.prototype.valueOf'',
           ''hasOwnProperty'' \<mapsto> Function ''Object.prototype.hasOwnProperty'',
           ''isPrototypeOf'' \<mapsto> Function ''Object.prototype.isPrototypeOf'',
           ''propertyIsEnumerable'' \<mapsto> Function ''Object.prototype.propertyIsEnumerable'',
           ''__defineGetter__'' \<mapsto> Function ''Object.prototype.__defineGetter__'',
           ''__defineSetter__'' \<mapsto> Function ''Object.prototype.__defineSetter__'',
           ''__lookupGetter__'' \<mapsto> Function ''Object.prototype.__lookupGetter__'',
           ''__lookupSetter__'' \<mapsto> Function ''Object.prototype.__lookupSetter__'',
           ''__proto__'' \<mapsto> ProtoAccessor]
      | ArrayPrototype \<Rightarrow>
          [''constructor'' \<mapsto> Function ''Array'',
           ''toString'' \<mapsto> Function ''Array.prototype.toString'',
           ''join'' \<mapsto> Function ''Array.prototype.join'',
           ''map'' \<mapsto> Function ''Array.prototype.map'',
           ''push'' \<mapsto> Function ''Array.prototype.push'']
      | StringPrototype \<Rightarrow>
          [''constructor'' \<mapsto> Function ''String'',
           ''toString'' \<mapsto> Function ''String.prototype.toString'',
           ''valueOf'' \<mapsto> Function ''String.prototype.valueOf'',
           ''toLowerCase'' \<mapsto> Function ''String.prototype.toLowerCase'']
      | NumberPrototype \<Rightarrow>
          [''constructor'' \<mapsto> Function ''Number'',
           ''toString'' \<mapsto> Function ''Number.prototype.toString'',
           ''valueOf'' \<mapsto> Function ''Number.prototype.valueOf'',
           ''toFixed'' \<mapsto> Function ''Number.prototype.toFixed'']
      | BooleanPrototype \<Rightarrow>
          [''constructor'' \<mapsto> Function ''Boolean'',
           ''toString'' \<mapsto> Function ''Boolean.prototype.toString'',
           ''valueOf'' \<mapsto> Function ''Boolean.prototype.valueOf''])"

text \<open>The same after some program has run \<open>Object.prototype.isAdmin = true\<close>.\<close>

definition polluted_prototypes :: prototypes where
  "polluted_prototypes =
     example_prototypes
       (ObjectPrototype :=
          (example_prototypes ObjectPrototype)(''isAdmin'' \<mapsto> Primitive (PBool True)))"

text \<open>
  Stand-ins for the two library functions: a deserializer that hands every value on and
  one that throws, a body reader that resolves with a given value and one that rejects.
\<close>

definition pass_through :: deserializer where
  "pass_through val p = Inr val"

definition throwing_deserializer :: "HttpError \<Rightarrow> deserializer" where
  "throwing_deserializer err val p = Inl err"

definition resolving_reader :: "json \<Rightarrow> json_reader" where
  "resolving_reader b request = Inr b"

definition rejecting_reader :: "HttpError \<Rightarrow> json_reader" where
  "rejecting_reader err request = Inl err"

definition syntax_error :: HttpError where
  "syntax_error = \<lparr>errorClass = Foreign, statusCode = None, message = ''Unexpected token''\<rparr>"

definition invalid_value :: HttpError where
  "invalid_value = \<lparr>errorClass = Foreign, statusCode = None, message = ''Invalid value''\<rparr>"

text \<open>An operation with one parameter from each supported location, and a request for it.\<close>

definition example_spec :: OperationObject where
  "example_spec =
     \<lparr>parameters = Some
        [Parameter \<lparr>name = ''id'', in_loc = ''path''\<rparr>,
         Parameter \<lparr>name = ''filter'', in_loc = ''query''\<rparr>,
         Parameter \<lparr>name = ''X-Token'', in_loc = ''header''\<rparr>,
         Parameter \<lparr>name = ''title'', in_loc = ''formData''\<rparr>,
         Parameter \<lparr>name = ''data'', in_loc = ''body''\<rparr>]\<rparr>"

definition example_route :: ResolvedRoute where
  "example_route =
     \<lparr>spec = example_spec,
      pathParams = \<lparr>own = [''id'' \<mapsto> JSON (JStr ''7'')], ordinary = False\<rparr>\<rparr>"

definition example_request :: ParsedRequest where
  "example_request =
     \<lparr>headers =
        \<lparr>own = [''content-type'' \<mapsto> Single ''application/json'',
                ''x-token'' \<mapsto> Single ''abc''],
         ordinary = True\<rparr>,
      query = \<lparr>own = [''filter'' \<mapsto> JSON (JStr ''new'')], ordinary = True\<rparr>\<rparr>"

definition example_body :: json where
  "example_body = JObj [(''title'', JStr ''hello'')]"

text \<open>
  An operation whose parameters bear the names of inherited properties, and one
  whose query parameter the request does not carry.
\<close>

definition inherited_spec :: OperationObject where
  "inherited_spec =
     \<lparr>parameters = Some
        [Parameter \<lparr>name = ''constructor'', in_loc = ''header''\<rparr>,
         Parameter \<lparr>name = ''toString'', in_loc = ''formData''\<rparr>,
         Parameter \<lparr>name = ''__proto__'', in_loc = ''query''\<rparr>,
         Parameter \<lparr>name = ''valueOf'', in_loc = ''path''\<rparr>]\<rparr>"

definition inherited_route :: ResolvedRoute where
  "inherited_route = \<lparr>spec = inherited_spec, pathParams = pathParams example_route\<rparr>"

definition admin_spec :: OperationObject where
  "admin_spec = \<lparr>parameters = Some [Parameter \<lparr>name = ''isAdmin'', in_loc = ''query''\<rparr>]\<rparr>"

text \<open>An operation that takes the request body, and requests with other content types.\<close>

definition body_only_spec :: OperationObject where
  "body_only_spec = \<lparr>parameters = Some [Parameter \<lparr>name = ''data'', in_loc = ''body''\<rparr>]\<rparr>"

definition body_only_route :: ResolvedRoute where
  "body_only_route =
     \<lparr>spec = body_only_spec, pathParams = \<lparr>own = Map.empty, ordinary = False\<rparr>\<rparr>"

definition text_plain_request :: ParsedRequest where
  "text_plain_request =
     \<lparr>headers = \<lparr>own = [''content-type'' \<mapsto> Single ''text/plain''], ordinary = True\<rparr>,
      query = \<lparr>own = Map.empty, ordinary = True\<rparr>\<rparr>"

definition empty_type_request :: ParsedRequest where
  "empty_type_request =
     \<lparr>headers = \<lparr>own = [''content-type'' \<mapsto> Single []], ordinary = True\<rparr>,
      query = \<lparr>own = Map.empty, ordinary = True\<rparr>\<rparr>"

text \<open>Operations the builder refuses, and one without parameters.\<close>

definition ref_spec :: OperationObject where
  "ref_spec =
     \<lparr>parameters = Some
        [Parameter \<lparr>name = ''id'', in_loc = ''path''\<rparr>, Reference ''#/parameters/limit'']\<rparr>"

definition ref_route :: ResolvedRoute where
  "ref_route = \<lparr>spec = ref_spec, pathParams = pathParams example_route\<rparr>"

definition cookie_spec :: OperationObject where
  "cookie_spec = \<lparr>parameters = Some [Parameter \<lparr>name = ''sid'', in_loc = ''cookie''\<rparr>]\<rparr>"

definition no_parameters_spec :: OperationObject where
  "no_parameters_spec = \<lparr>parameters = None\<rparr>"

text \<open>States around the example inputs, with the arrays already allocated left open.\<close>

definition example_state :: "prototypes \<Rightarrow> jsvalue list list \<Rightarrow> js_state" where
  "example_state protos arrays =
     \<lparr>st_operationSpec = example_spec, st_request = example_request,
      st_pathParams = pathParams example_route, st_body = Some example_body,
      st_prototypes = protos, st_arrays = arrays\<rparr>"


text \<open>The controllers and the context of the provider's unit test.\<close>

definition TestController :: controller_class where
  "TestController =
     authenticate ''my-strategy''
       (JSON (JObj [(''option1'', JStr ''value1''), (''option2'', JStr ''value2'')]))
       ''whoAmI''
       \<lparr>className = ''TestController'', authMetadata = Map.empty\<rparr>"

definition ControllerWithNoMetadata :: controller_class where
  "ControllerWithNoMetadata =
     \<lparr>className = ''ControllerWithNoMetadata'', authMetadata = Map.empty\<rparr>"

definition test_context :: "controller_class \<Rightarrow> di_context" where
  "test_context c =
     bind_toProvider CONTROLLER_METHOD_META AuthMetadataProvider
       (bind_to CONTROLLER_METHOD_NAME (VString ''whoAmI'')
          (bind_to CONTROLLER_CLASS (VClass c) Map.empty))"

section \<open>Loading the body\<close>

text \<open>
  \<open>test_json\<close> is the substring test, \<open>hasArgumentsFromBody\<close> looks for a parameter
  object drawn from the body, and \<open>loadRequestBodyIfNeeded\<close> has three outcomes.
\<close>

lemma test_json_iff: "test_json s \<longleftrightarrow> (\<exists>pre suf. s = pre @ ''json'' @ suf)"
proof (induction s)
  case Nil
  then show ?case by simp
next
  case (Cons c cs)
  show ?case
  proof
    assume "test_json (c # cs)"
    then consider "take 4 (c # cs) = ''json''" | "test_json cs" by auto
    then show "\<exists>pre suf. c # cs = pre @ ''json'' @ suf"
    proof cases
      case 1
      then have "c # cs = [] @ ''json'' @ drop 4 (c # cs)"
        by (metis append_Nil append_take_drop_id)
      then show ?thesis by blast
    next
      case 2
      with Cons obtain pre suf where "cs = pre @ ''json'' @ suf" by blast
      then have "c # cs = (c # pre) @ ''json'' @ suf" by simp
      then show ?thesis by blast
    qed
  next
    assume "\<exists>pre suf. c # cs = pre @ ''json'' @ suf"
    then obtain pre suf where eq: "c # cs = pre @ ''json'' @ suf" by blast
    show "test_json (c # cs)"
    proof (cases pre)
      case Nil
      with eq have "take 4 (c # cs) = ''json''" by simp
      then show ?thesis by simp
    next
      case (Cons a pre')
      with eq have "cs = pre' @ ''json'' @ suf" by simp
      with Cons.IH have "test_json cs" by blast
      then show ?thesis by simp
    qed
  qed
qed

lemma hasArgumentsFromBody_loop_iff:
  "hasArgumentsFromBody_loop ps \<longleftrightarrow>
     (\<exists>s. Parameter s \<in> set ps \<and> (in_loc s = ''formData'' \<or> in_loc s = ''body''))"
  by (induction ps rule: hasArgumentsFromBody_loop.induct) auto

lemma hasArgumentsFromBody_iff:
  "hasArgumentsFromBody sp \<longleftrightarrow>
     (\<exists>s. Parameter s \<in> set (parameters_or_empty sp)
          \<and> (in_loc s = ''formData'' \<or> in_loc s = ''body''))"
  by (cases "parameters sp")
     (simp_all add: hasArgumentsFromBody_def parameters_or_empty_def
        hasArgumentsFromBody_loop_iff)

lemma unsupported_contentType_iff:
  "unsupported_contentType c \<longleftrightarrow>
     (\<exists>ct. c = Some ct \<and> ct \<noteq> [] \<and> \<not> (\<exists>pre suf. ct = pre @ ''json'' @ suf))"
  by (cases c) (simp_all add: unsupported_contentType_def test_json_iff)

lemma load_not_needed:
  "\<not> hasArgumentsFromBody sp \<Longrightarrow> loadRequestBodyIfNeeded protos pj sp req = ([], Inr None)"
  by (simp add: loadRequestBodyIfNeeded_def)

lemma load_unsupported:
  "hasArgumentsFromBody sp \<Longrightarrow> getContentType protos req = Some ct \<Longrightarrow> ct \<noteq> [] \<Longrightarrow>
   \<not> (\<exists>pre suf. ct = pre @ ''json'' @ suf) \<Longrightarrow>
   loadRequestBodyIfNeeded protos pj sp req =
     ([ReadContentType],
      Inl (UnsupportedMediaType (''Content-type '' @ ct @ '' is not supported.'')))"
  by (simp add: loadRequestBodyIfNeeded_def unsupported_contentType_iff contentType_text_def)

lemma load_parses:
  "hasArgumentsFromBody sp \<Longrightarrow> \<not> unsupported_contentType (getContentType protos req) \<Longrightarrow>
   loadRequestBodyIfNeeded protos pj sp req =
     ([ReadContentType, ParseJsonBody], parseJsonBody_catch pj req)"
  by (simp add: loadRequestBodyIfNeeded_def)

lemma catch_Inl_iff:
  "parseJsonBody_catch pj req = Inl e \<longleftrightarrow> (\<exists>e'. pj req = Inl e' \<and> e = e'\<lparr>statusCode := Some 400\<rparr>)"
  by (auto simp: parseJsonBody_catch_def split: sum.splits)

section \<open>The dispatch on the parameter's location\<close>

lemma switch_in_supported:
  "in_loc s \<in> supported_locations \<Longrightarrow> \<exists>raw. switch_in protos req pp body s = Inr raw"
  by (auto simp: switch_in_def)

lemma switch_in_unsupported:
  \<open>in_loc s \<notin> supported_locations \<Longrightarrow>
     switch_in protos req pp body s =
       Inl (NotImplemented (''Parameters with "in: '' @ in_loc s @ ''" are not supported yet.''))\<close>
  by (simp add: switch_in_def)

lemma switch_in_Inr_supported:
  "switch_in protos req pp body s = Inr raw \<Longrightarrow> in_loc s \<in> supported_locations"
  by (auto simp: switch_in_def split: if_splits)

lemma switch_in_cases:
  assumes "switch_in protos req pp body s = Inr raw"
  shows "(in_loc s = ''query'' \<longrightarrow> raw = lookup protos (query req) (name s)) \<and>
         (in_loc s = ''path'' \<longrightarrow> raw = lookup protos pp (name s)) \<and>
         (in_loc s = ''header'' \<longrightarrow>
            raw = header_lookup protos (headers req) (toLowerCase (name s))) \<and>
         (in_loc s = ''formData'' \<longrightarrow>
            raw = (case body of
                     None \<Rightarrow> JUndefined
                   | Some b \<Rightarrow> if truthy b then getProperty protos b (name s) else JUndefined)) \<and>
         (in_loc s = ''body'' \<longrightarrow> raw = body_js body)"
  using assms by (auto simp: switch_in_def split: if_splits)

lemma loop_body_Inr_iff:
  "loop_body protos d req pp body p = Inr v \<longleftrightarrow>
     (\<exists>s raw. p = Parameter s \<and> switch_in protos req pp body s = Inr raw \<and> d raw s = Inr v)"
  by (cases p) (auto split: sum.splits)

section \<open>The loop of \<open>buildOperationArguments\<close>\<close>

text \<open>
  The loop returns exactly when every turn yields a value, with the values in order;
  it throws the error of the first turn that throws.
\<close>

lemma loop_Inr:
  "buildOperationArguments_loop protos d req pp body ps args = Inr res \<longleftrightarrow>
     (\<exists>vs. res = args @ vs \<and> list_all2 (\<lambda>p v. loop_body protos d req pp body p = Inr v) ps vs)"
proof (induction ps arbitrary: args)
  case Nil
  show ?case by auto
next
  case (Cons p ps)
  show ?case
  proof (cases "loop_body protos d req pp body p")
    case (Inl e)
    then show ?thesis by (simp add: list_all2_Cons1)
  next
    case (Inr v)
    then show ?thesis by (auto simp: Cons.IH list_all2_Cons1)
  qed
qed

lemma loop_Inl:
  "buildOperationArguments_loop protos d req pp body ps args = Inl e \<longleftrightarrow>
     (\<exists>pre p post. ps = pre @ p # post \<and> (\<forall>q\<in>set pre. \<exists>v. loop_body protos d req pp body q = Inr v)
        \<and> loop_body protos d req pp body p = Inl e)"
proof (induction ps arbitrary: args)
  case Nil
  show ?case by simp
next
  case (Cons p ps)
  show ?case
  proof (cases "loop_body protos d req pp body p")
    case (Inl e')
    show ?thesis
    proof
      assume "buildOperationArguments_loop protos d req pp body (p # ps) args = Inl e"
      with Inl have "e' = e" by simp
      with Inl have "p # ps = [] @ p # ps \<and> (\<forall>q\<in>set []. \<exists>v. loop_body protos d req pp body q = Inr v) \<and> loop_body protos d req pp body p = Inl e"
        by simp
      then show "\<exists>pre p' post. p # ps = pre @ p' # post \<and> (\<forall>q\<in>set pre. \<exists>v. loop_body protos d req pp body q = Inr v) \<and> loop_body protos d req pp body p' = Inl e"
        by blast
    next
      assume "\<exists>pre p' post. p # ps = pre @ p' # post \<and> (\<forall>q\<in>set pre. \<exists>v. loop_body protos d req pp body q = Inr v) \<and> loop_body protos d req pp body p' = Inl e"
      then obtain pre p' post where eq: "p # ps = pre @ p' # post"
        and pre: "\<forall>q\<in>set pre. \<exists>v. loop_body protos d req pp body q = Inr v"
        and bad: "loop_body protos d req pp body p' = Inl e" by blast
      have "pre = []"
      proof (cases pre)
        case Nil then show ?thesis .
      next
        case (Cons a pre')
        with eq have "a = p" by simp
        with Cons pre Inl show ?thesis by auto
      qed
      with eq bad Inl show "buildOperationArguments_loop protos d req pp body (p # ps) args = Inl e" by simp
    qed
  next
    case (Inr v)
    show ?thesis
    proof
      assume "buildOperationArguments_loop protos d req pp body (p # ps) args = Inl e"
      with Inr have "buildOperationArguments_loop protos d req pp body ps (args @ [v]) = Inl e" by simp
      then obtain pre p' post where "ps = pre @ p' # post"
        "\<forall>q\<in>set pre. \<exists>v. loop_body protos d req pp body q = Inr v"
        "loop_body protos d req pp body p' = Inl e" using Cons.IH by blast
      with Inr have "p # ps = (p # pre) @ p' # post \<and> (\<forall>q\<in>set (p # pre). \<exists>v. loop_body protos d req pp body q = Inr v) \<and> loop_body protos d req pp body p' = Inl e"
        by simp
      then show "\<exists>pre p' post. p # ps = pre @ p' # post \<and> (\<forall>q\<in>set pre. \<exists>v. loop_body protos d req pp body q = Inr v) \<and> loop_body protos d req pp body p' = Inl e"
        by blast
    next
      assume "\<exists>pre p' post. p # ps = pre @ p' # post \<and> (\<forall>q\<in>set pre. \<exists>v. loop_body protos d req pp body q = Inr v) \<and> loop_body protos d req pp body p' = Inl e"
      then obtain pre p' post where eq: "p # ps = pre @ p' # post"
        and pre: "\<forall>q\<in>set pre. \<exists>v. loop_body protos d req pp body q = Inr v"
        and bad: "loop_body protos d req pp body p' = Inl e" by blast
      obtain pre' where pre': "pre = p # pre'"
      proof (cases pre)
        case Nil
        with eq bad Inr show ?thesis by simp
      next
        case (Cons a l)
        with eq that show ?thesis by simp
      qed
      with eq have "ps = pre' @ p' # post" by simp
      moreover from pre pre' have "\<forall>q\<in>set pre'. \<exists>v. loop_body protos d req pp body q = Inr v" by simp
      ultimately have "buildOperationArguments_loop protos d req pp body ps (args @ [v]) = Inl e"
        using bad Cons.IH by blast
      with Inr show "buildOperationArguments_loop protos d req pp body (p # ps) args = Inl e" by simp
    qed
  qed
qed

lemma build_Inr_iff:
  "buildOperationArguments protos d sp req pp body = Inr args \<longleftrightarrow>
     list_all2 (\<lambda>p v. loop_body protos d req pp body p = Inr v) (parameters_or_empty sp) args"
  by (simp add: buildOperationArguments_def loop_Inr)

lemma build_Inl_iff:
  "buildOperationArguments protos d sp req pp body = Inl e \<longleftrightarrow>
     (\<exists>pre p post. parameters_or_empty sp = pre @ p # post
        \<and> (\<forall>q\<in>set pre. \<exists>v. loop_body protos d req pp body q = Inr v)
        \<and> loop_body protos d req pp body p = Inl e)"
  by (simp add: buildOperationArguments_def loop_Inl)

lemma list_all2_memD:
  assumes "list_all2 R xs ys" and "x \<in> set xs"
  shows "\<exists>y. R x y"
proof -
  from assms(2) obtain i where "i < length xs" "xs ! i = x"
    by (auto simp: in_set_conv_nth)
  with list_all2_nthD [OF assms(1), of i] show ?thesis by blast
qed

lemma loop_body_good:
  assumes "\<forall>s raw. Parameter s \<in> set ps \<longrightarrow> switch_in protos req pp body s = Inr raw
             \<longrightarrow> (\<exists>v. d raw s = Inr v)"
    and "p \<in> set ps"
  shows "(\<exists>v. loop_body protos d req pp body p = Inr v)
           \<longleftrightarrow> (\<exists>s. p = Parameter s \<and> in_loc s \<in> supported_locations)"
proof
  assume "\<exists>v. loop_body protos d req pp body p = Inr v"
  then obtain s raw where "p = Parameter s" "switch_in protos req pp body s = Inr raw"
    by (auto simp: loop_body_Inr_iff)
  then show "\<exists>s. p = Parameter s \<and> in_loc s \<in> supported_locations"
    using switch_in_Inr_supported by blast
next
  assume "\<exists>s. p = Parameter s \<and> in_loc s \<in> supported_locations"
  then obtain s where s: "p = Parameter s" "in_loc s \<in> supported_locations" by blast
  then obtain raw where raw: "switch_in protos req pp body s = Inr raw"
    using switch_in_supported by blast
  with assms s obtain v where "d raw s = Inr v" by blast
  with s raw show "\<exists>v. loop_body protos d req pp body p = Inr v" by simp
qed

lemma loop_body_Inl_cases:
  assumes "\<forall>s raw. Parameter s \<in> set ps \<longrightarrow> switch_in protos req pp body s = Inr raw
             \<longrightarrow> (\<exists>v. d raw s = Inr v)"
    and "p \<in> set ps"
    and "loop_body protos d req pp body p = Inl e"
  shows \<open>(\<exists>r. p = Reference r \<and> e = Error ''$ref parameters are not supported yet.'') \<or>
         (\<exists>s. p = Parameter s \<and> in_loc s \<notin> supported_locations \<and>
              e = NotImplemented
                    (''Parameters with "in: '' @ in_loc s @ ''" are not supported yet.''))\<close>
proof (cases p)
  case (Reference r)
  with assms(3) show ?thesis by simp
next
  case (Parameter s)
  have bad: "in_loc s \<notin> supported_locations"
  proof
    assume "in_loc s \<in> supported_locations"
    with Parameter have "\<exists>v. loop_body protos d req pp body p = Inr v"
      using loop_body_good [OF assms(1) assms(2)] by blast
    with assms(3) show False by simp
  qed
  from switch_in_unsupported [OF bad, of protos req pp body] Parameter assms(3) bad
  show ?thesis by simp
qed

lemma build_all_supported:
  assumes "\<forall>s raw. Parameter s \<in> set (parameters_or_empty sp)
             \<longrightarrow> switch_in protos req pp body s = Inr raw \<longrightarrow> (\<exists>v. d raw s = Inr v)"
    and "\<forall>p\<in>set (parameters_or_empty sp). \<exists>s. p = Parameter s \<and> in_loc s \<in> supported_locations"
  shows "\<exists>args. buildOperationArguments protos d sp req pp body = Inr args"
proof (cases "buildOperationArguments protos d sp req pp body")
  case (Inl e)
  then obtain pre p post where eq: "parameters_or_empty sp = pre @ p # post"
    and bad: "loop_body protos d req pp body p = Inl e"
    by (auto simp: build_Inl_iff)
  from eq have mem: "p \<in> set (parameters_or_empty sp)" by simp
  with assms(2) have "\<exists>s. p = Parameter s \<and> in_loc s \<in> supported_locations" by blast
  then have "\<exists>v. loop_body protos d req pp body p = Inr v"
    using loop_body_good [OF assms(1) mem] by blast
  with bad show ?thesis by simp
next
  case (Inr args)
  then show ?thesis by blast
qed

lemma parseOperationArgs_snd:
  "snd (parseOperationArgs protos d pj req route) =
     (case snd (loadRequestBodyIfNeeded protos pj (spec route) req) of
        Inl err \<Rightarrow> Inl err
      | Inr body \<Rightarrow> buildOperationArguments protos d (spec route) req (pathParams route) body)"
  by (simp add: parseOperationArgs_def Let_def split: prod.splits sum.splits)

lemma parseOperationArgs_fst:
  "fst (parseOperationArgs protos d pj req route) = fst (loadRequestBodyIfNeeded protos pj (spec route) req)"
  by (simp add: parseOperationArgs_def Let_def split: prod.splits sum.splits)

section \<open>The loop over the store\<close>

text \<open>
  Over the explicit store the loop writes to the array it allocated and to nothing
  else, and what it returns is what the loop over values computes.
\<close>

lemma array_push_frame:
  "st_operationSpec (array_push a v s) = st_operationSpec s"
  "st_request (array_push a v s) = st_request s"
  "st_pathParams (array_push a v s) = st_pathParams s"
  "st_body (array_push a v s) = st_body s"
  "st_prototypes (array_push a v s) = st_prototypes s"
  "length (st_arrays (array_push a v s)) = length (st_arrays s)"
  "b \<noteq> a \<Longrightarrow> st_arrays (array_push a v s) ! b = st_arrays s ! b"
  "a < length (st_arrays s) \<Longrightarrow> st_arrays (array_push a v s) ! a = st_arrays s ! a @ [v]"
  by (simp_all add: array_push_def)

lemma loop_st_frame:
  assumes "buildOperationArguments_loop_st d a ps s = (s', r)"
  shows "st_operationSpec s' = st_operationSpec s \<and> st_request s' = st_request s
       \<and> st_pathParams s' = st_pathParams s \<and> st_body s' = st_body s
       \<and> st_prototypes s' = st_prototypes s
       \<and> length (st_arrays s') = length (st_arrays s)
       \<and> (\<forall>b. b \<noteq> a \<longrightarrow> st_arrays s' ! b = st_arrays s ! b)
       \<and> (\<forall>a'. r = Inr a' \<longrightarrow> a' = a)"
  using assms
proof (induction ps arbitrary: s)
  case Nil
  then show ?case by auto
next
  case (Cons p ps)
  show ?case
  proof (cases "loop_body (st_prototypes s) d (st_request s) (st_pathParams s) (st_body s) p")
    case (Inl e)
    with Cons.prems show ?thesis by auto
  next
    case (Inr v)
    with Cons.prems have "buildOperationArguments_loop_st d a ps (array_push a v s) = (s', r)"
      by simp
    from Cons.IH [OF this] show ?thesis by (simp add: array_push_frame)
  qed
qed

lemma loop_st_refines:
  assumes "a < length (st_arrays s)"
  shows "returned (buildOperationArguments_loop_st d a ps s) =
           buildOperationArguments_loop (st_prototypes s) d (st_request s) (st_pathParams s)
             (st_body s) ps (st_arrays s ! a)"
  using assms
proof (induction ps arbitrary: s)
  case Nil
  then show ?case by (simp add: returned_def)
next
  case (Cons p ps)
  show ?case
  proof (cases "loop_body (st_prototypes s) d (st_request s) (st_pathParams s) (st_body s) p")
    case (Inl e)
    then show ?thesis by (simp add: returned_def)
  next
    case (Inr v)
    from Cons.prems have "a < length (st_arrays (array_push a v s))"
      by (simp add: array_push_frame)
    from Cons.IH [OF this] Inr Cons.prems show ?thesis by (simp add: array_push_frame)
  qed
qed

lemma build_st_refines:
  "returned (buildOperationArguments_st d s) =
     buildOperationArguments (st_prototypes s) d (st_operationSpec s) (st_request s)
       (st_pathParams s) (st_body s)"
proof -
  let ?s1 = "s\<lparr>st_arrays := st_arrays s @ [[]]\<rparr>"
  let ?a = "length (st_arrays s)"
  have "?a < length (st_arrays ?s1)" by simp
  from loop_st_refines [OF this, of d "parameters_or_empty (st_operationSpec s)"]
  show ?thesis
    by (simp add: buildOperationArguments_st_def new_array_def buildOperationArguments_def)
qed

section \<open>Reads that depend on the prototype objects only through the key\<close>







lemma loop_body_Inl_iff:
  \<open>loop_body protos d req pp body p = Inl e \<longleftrightarrow>
     (\<exists>r. p = Reference r \<and> e = Error ''$ref parameters are not supported yet.'') \<or>
     (\<exists>s. p = Parameter s \<and> in_loc s \<notin> supported_locations \<and>
          e = NotImplemented
                (''Parameters with "in: '' @ in_loc s @ ''" are not supported yet.'')) \<or>
     (\<exists>s raw. p = Parameter s \<and> in_loc s \<in> supported_locations \<and>
          switch_in protos req pp body s = Inr raw \<and> d raw s = Inl e)\<close>
proof (cases p)
  case (Reference r)
  then show ?thesis by auto
next
  case (Parameter s)
  show ?thesis
  proof (cases "in_loc s \<in> supported_locations")
    case True
    then obtain raw where raw: "switch_in protos req pp body s = Inr raw"
      using switch_in_supported by blast
    with Parameter True show ?thesis by auto
  next
    case False
    from switch_in_unsupported [OF False, of protos req pp body] Parameter False
    show ?thesis by auto
  qed
qed

section \<open>The example inputs, evaluated\<close>

lemmas example_defs =
  example_spec_def example_route_def example_request_def example_body_def
  body_only_spec_def body_only_route_def text_plain_request_def empty_type_request_def
  ref_spec_def ref_route_def cookie_spec_def no_parameters_spec_def
  inherited_spec_def inherited_route_def admin_spec_def
  pass_through_def throwing_deserializer_def resolving_reader_def rejecting_reader_def
  syntax_error_def invalid_value_def

lemmas parser_defs =
  parseOperationArgs_def loadRequestBodyIfNeeded_def hasArgumentsFromBody_def
  getContentType_def unsupported_contentType_def contentType_text_def
  parseJsonBody_catch_def buildOperationArguments_def parameters_or_empty_def
  switch_in_def lookup_def header_lookup_def toLowerCase_def lower_char_def

lemmas prototype_defs =
  inherited_def example_prototypes_def polluted_prototypes_def

lemma example_parse:
  "parseOperationArgs protos pass_through (resolving_reader example_body) example_request
     example_route
     = ([ReadContentType, ParseJsonBody],
        Inr [JSON (JStr ''7''), JSON (JStr ''new''), JSON (JStr ''abc''), JSON (JStr ''hello''),
             JSON example_body])"
  by (simp add: example_defs parser_defs)

lemma example_build:
  "buildOperationArguments protos pass_through example_spec example_request
     (pathParams example_route) (Some example_body)
   = Inr [JSON (JStr ''7''), JSON (JStr ''new''), JSON (JStr ''abc''), JSON (JStr ''hello''),
          JSON example_body]"
  by (simp add: example_defs parser_defs)

text \<open>
  Parameters named after inherited properties: the header \<open>constructor\<close> and the form
  field \<open>toString\<close> are found on \<open>Object.prototype\<close>, the query key \<open>__proto__\<close> answers
  with the prototype itself, and the path parameters, an object without prototype,
  have no \<open>valueOf\<close>.
\<close>

lemma inherited_parse:
  "parseOperationArgs example_prototypes pass_through (resolving_reader example_body)
     example_request inherited_route
     = ([ReadContentType, ParseJsonBody],
        Inr [JBuiltin ''Object'', JBuiltin ''Object.prototype.toString'',
             JBuiltin ''Object.prototype'', JUndefined])"
  by (simp add: example_defs parser_defs prototype_defs)

lemma refused_examples:
  \<open>buildOperationArguments protos pass_through ref_spec example_request
     (pathParams example_route) None
     = Inl (Error ''$ref parameters are not supported yet.'')\<close>
  \<open>buildOperationArguments protos pass_through cookie_spec example_request
     (pathParams example_route) None
     = Inl (NotImplemented ''Parameters with "in: cookie" are not supported yet.'')\<close>
  by (simp_all add: example_defs parser_defs)

lemma getProperty_examples:
  "getProperty protos example_body ''title'' = JSON (JStr ''hello'')"
  "getProperty example_prototypes example_body ''author'' = JUndefined"
  "getProperty example_prototypes example_body ''toString''
     = JBuiltin ''Object.prototype.toString''"
  "getProperty example_prototypes example_body ''__proto__'' = JBuiltin ''Object.prototype''"
  "getProperty protos (JArr [JStr ''a'', JStr ''b'']) ''1'' = JSON (JStr ''b'')"
  "getProperty protos (JArr [JStr ''a'', JStr ''b'']) ''length'' = JSON (JNum 2)"
  "getProperty example_prototypes (JArr [JStr ''a'', JStr ''b'']) ''map''
     = JBuiltin ''Array.prototype.map''"
  "getProperty example_prototypes (JArr [JStr ''a'', JStr ''b'']) ''hasOwnProperty''
     = JBuiltin ''Object.prototype.hasOwnProperty''"
  "getProperty example_prototypes (JArr [JStr ''a'', JStr ''b'']) ''__proto__''
     = JBuiltin ''Array.prototype''"
  "getProperty protos (JStr ''ab'') ''0'' = JSON (JStr ''a'')"
  "getProperty example_prototypes (JNum 5) ''toFixed'' = JBuiltin ''Number.prototype.toFixed''"
  "getProperty protos (JStr []) ''length'' = JSON (JNum 0)"
  by (simp_all add: example_body_def index_of_def upt_rec digit_char_def string_of_nat.simps
      prototype_defs)

lemma formData_falsy_body:
  "switch_in protos example_request pp (Some (JStr []))
     \<lparr>name = ''length'', in_loc = ''formData''\<rparr> = Inr JUndefined"
  "switch_in protos example_request pp (Some JNull)
     \<lparr>name = ''title'', in_loc = ''formData''\<rparr> = Inr JUndefined"
  "switch_in protos example_request pp None
     \<lparr>name = ''title'', in_loc = ''formData''\<rparr> = Inr JUndefined"
  by (simp_all add: switch_in_def)

lemma pass_through_total:
  "\<forall>s raw. Parameter s \<in> set ps \<longrightarrow> switch_in protos req pp b s = Inr raw
      \<longrightarrow> (\<exists>v. pass_through raw s = Inr v)"
  by (simp add: pass_through_def)

lemma example_supported:
  "\<forall>p\<in>set (parameters_or_empty example_spec).
      \<exists>s. p = Parameter s \<and> in_loc s \<in> supported_locations"
  by (simp add: example_spec_def parameters_or_empty_def)

lemma inherited_supported:
  "\<forall>p\<in>set (parameters_or_empty inherited_spec).
      \<exists>s. p = Parameter s \<and> in_loc s \<in> supported_locations"
  by (simp add: inherited_spec_def parameters_or_empty_def)

lemma example_loaded:
  "snd (loadRequestBodyIfNeeded protos (resolving_reader example_body) example_spec
          example_request) = Inr (Some example_body)"
  "snd (loadRequestBodyIfNeeded example_prototypes (resolving_reader example_body)
          inherited_spec example_request) = Inr (Some example_body)"
  by (simp_all add: example_defs parser_defs)

lemma ref_spec_offends:
  "\<exists>p\<in>set (parameters_or_empty ref_spec). \<exists>r. p = Reference r"
  by (simp add: ref_spec_def parameters_or_empty_def)

lemma cookie_spec_offends:
  "\<exists>p\<in>set (parameters_or_empty cookie_spec).
      \<exists>s. p = Parameter s \<and> in_loc s \<notin> supported_locations"
  by (simp add: cookie_spec_def parameters_or_empty_def)

lemma text_plain_no_json:
  "\<not> (\<exists>pre suf. ''text/plain'' = pre @ ''json'' @ suf)"
proof
  assume "\<exists>pre suf. ''text/plain'' = pre @ ''json'' @ suf"
  then have "test_json ''text/plain''" by (rule test_json_iff [THEN iffD2])
  then show False by simp
qed

lemma application_json_has_json:
  "\<exists>pre suf. ''application/json'' = pre @ ''json'' @ suf"
proof -
  have "test_json ''application/json''" by simp
  then show ?thesis by (rule test_json_iff [THEN iffD1])
qed

lemma example_content_type:
  "getContentType protos example_request = Some ''application/json''"
  "getContentType protos text_plain_request = Some ''text/plain''"
  by (simp_all add: getContentType_def example_request_def text_plain_request_def)

lemma example_content_type_accepted:
  "\<not> (\<exists>ct. getContentType protos example_request = Some ct \<and> ct \<noteq> []
         \<and> \<not> (\<exists>pre suf. ct = pre @ ''json'' @ suf))"
  using application_json_has_json by (simp only: example_content_type option.inject) blast

lemma body_only_needed:
  "\<exists>s. Parameter s \<in> set (parameters_or_empty body_only_spec)
      \<and> (in_loc s = ''formData'' \<or> in_loc s = ''body'')"
  by (simp add: body_only_spec_def parameters_or_empty_def)

lemma example_spec_parameters:
  "parameters_or_empty example_spec =
     [Parameter \<lparr>name = ''id'', in_loc = ''path''\<rparr>,
      Parameter \<lparr>name = ''filter'', in_loc = ''query''\<rparr>,
      Parameter \<lparr>name = ''X-Token'', in_loc = ''header''\<rparr>,
      Parameter \<lparr>name = ''title'', in_loc = ''formData''\<rparr>,
      Parameter \<lparr>name = ''data'', in_loc = ''body''\<rparr>]"
  by (simp add: example_spec_def parameters_or_empty_def)


section \<open>The claims\<close>

text \<open>
  Claim C1, amended. As stated the claim fails: a route whose only parameter is taken
  from the body is rejected with 415 when the request's content type is
  \<open>text/plain\<close> (the counterexample after the theorem). What holds:
  for every route whose parameters are all parameter objects with \<open>in\<close> among
  \<open>query\<close>, \<open>path\<close>, \<open>header\<close>, \<open>formData\<close> and \<open>body\<close>, whenever loading the body
  resolves with a value \<open>body\<close> (it resolves with \<open>undefined\<close> when no parameter needs
  the body) and the deserializer returns on the values it is given,
  \<open>parseOperationArgs\<close> resolves with one argument per parameter, in the order of the
  spec, the \<open>i\<close>-th being the deserialized value of \<open>request.query[name]\<close> for
  \<open>query\<close>, \<open>pathParams[name]\<close> for \<open>path\<close>, \<open>request.headers[name.toLowerCase()]\<close> for
  \<open>header\<close>, \<open>body[name]\<close> for \<open>formData\<close> when \<open>body\<close> is truthy and \<open>undefined\<close>
  when it is not, and the whole \<open>body\<close> for \<open>body\<close>. Each of these reads is the
  JavaScript read: the own property, or else what the prototype chain has under the
  name.
\<close>

theorem parseOperationArgs_arguments:
  assumes supported:
    "\<forall>p\<in>set (parameters_or_empty (spec route)).
        \<exists>s. p = Parameter s \<and> in_loc s \<in> supported_locations"
    and loaded:
      "snd (loadRequestBodyIfNeeded protos parseJsonBody (spec route) request) = Inr body"
    and deser:
      "\<forall>s raw. Parameter s \<in> set (parameters_or_empty (spec route))
          \<longrightarrow> switch_in protos request (pathParams route) body s = Inr raw
          \<longrightarrow> (\<exists>v. deserialize raw s = Inr v)"
  shows
    "\<exists>args. snd (parseOperationArgs protos deserialize parseJsonBody request route) = Inr args
       \<and> length args = length (parameters_or_empty (spec route))
       \<and> (\<forall>i<length args. \<exists>s. parameters_or_empty (spec route) ! i = Parameter s
            \<and> (in_loc s = ''query''
                 \<longrightarrow> deserialize (lookup protos (query request) (name s)) s = Inr (args ! i))
            \<and> (in_loc s = ''path''
                 \<longrightarrow> deserialize (lookup protos (pathParams route) (name s)) s
                       = Inr (args ! i))
            \<and> (in_loc s = ''header''
                 \<longrightarrow> deserialize
                        (header_lookup protos (headers request) (toLowerCase (name s))) s
                       = Inr (args ! i))
            \<and> (in_loc s = ''formData''
                 \<longrightarrow> deserialize
                        (case body of
                           None \<Rightarrow> JUndefined
                         | Some b \<Rightarrow>
                             if truthy b then getProperty protos b (name s) else JUndefined) s
                       = Inr (args ! i))
            \<and> (in_loc s = ''body'' \<longrightarrow> deserialize (body_js body) s = Inr (args ! i)))"
proof -
  let ?ps = "parameters_or_empty (spec route)"
  let ?B = "loop_body protos deserialize request (pathParams route) body"
  have run: "snd (parseOperationArgs protos deserialize parseJsonBody request route) =
      buildOperationArguments protos deserialize (spec route) request (pathParams route) body"
    using loaded by (simp add: parseOperationArgs_snd)
  from build_all_supported [OF deser supported] obtain args where
    args: "buildOperationArguments protos deserialize (spec route) request (pathParams route)
             body = Inr args" ..
  then have all2: "list_all2 (\<lambda>p v. ?B p = Inr v) ?ps args" by (simp add: build_Inr_iff)
  then have len: "length args = length ?ps" by (simp add: list_all2_lengthD)
  have each: "\<exists>s. ?ps ! i = Parameter s
            \<and> (in_loc s = ''query''
                 \<longrightarrow> deserialize (lookup protos (query request) (name s)) s = Inr (args ! i))
            \<and> (in_loc s = ''path''
                 \<longrightarrow> deserialize (lookup protos (pathParams route) (name s)) s
                       = Inr (args ! i))
            \<and> (in_loc s = ''header''
                 \<longrightarrow> deserialize
                        (header_lookup protos (headers request) (toLowerCase (name s))) s
                       = Inr (args ! i))
            \<and> (in_loc s = ''formData''
                 \<longrightarrow> deserialize
                        (case body of
                           None \<Rightarrow> JUndefined
                         | Some b \<Rightarrow>
                             if truthy b then getProperty protos b (name s) else JUndefined) s
                       = Inr (args ! i))
            \<and> (in_loc s = ''body'' \<longrightarrow> deserialize (body_js body) s = Inr (args ! i))"
    if "i < length args" for i
  proof -
    from that len have "i < length ?ps" by simp
    from list_all2_nthD [OF all2 this] have "?B (?ps ! i) = Inr (args ! i)" .
    then obtain s raw where s: "?ps ! i = Parameter s"
      and raw: "switch_in protos request (pathParams route) body s = Inr raw"
      and v: "deserialize raw s = Inr (args ! i)"
      by (auto simp: loop_body_Inr_iff)
    from switch_in_cases [OF raw] s v show ?thesis by auto
  qed
  from run args len each show ?thesis by simp
qed

theorem parseOperationArgs_arguments_witness:
  "(\<exists>args. snd (parseOperationArgs example_prototypes pass_through
                  (resolving_reader example_body) example_request example_route) = Inr args
       \<and> length args = 5
       \<and> args = [JSON (JStr ''7''), JSON (JStr ''new''), JSON (JStr ''abc''),
                 JSON (JStr ''hello''), JSON example_body])
   \<and> (\<exists>args. snd (parseOperationArgs example_prototypes pass_through
                  (resolving_reader example_body) example_request inherited_route) = Inr args
       \<and> length args = 4
       \<and> args = [JBuiltin ''Object'', JBuiltin ''Object.prototype.toString'',
                 JBuiltin ''Object.prototype'', JUndefined])"
proof -
  have sp: "spec example_route = example_spec" "spec inherited_route = inherited_spec"
    by (simp_all add: example_route_def inherited_route_def)
  have supported: "\<forall>p\<in>set (parameters_or_empty (spec example_route)).
      \<exists>s. p = Parameter s \<and> in_loc s \<in> supported_locations"
    using example_supported by (simp only: sp)
  have supported': "\<forall>p\<in>set (parameters_or_empty (spec inherited_route)).
      \<exists>s. p = Parameter s \<and> in_loc s \<in> supported_locations"
    using inherited_supported by (simp only: sp)
  have loaded: "snd (loadRequestBodyIfNeeded example_prototypes (resolving_reader example_body)
      (spec example_route) example_request) = Inr (Some example_body)"
    using example_loaded(1) by (simp only: sp)
  have loaded': "snd (loadRequestBodyIfNeeded example_prototypes (resolving_reader example_body)
      (spec inherited_route) example_request) = Inr (Some example_body)"
    using example_loaded(2) by (simp only: sp)
  from parseOperationArgs_arguments [OF supported loaded pass_through_total]
  obtain args where
    res: "snd (parseOperationArgs example_prototypes pass_through
            (resolving_reader example_body) example_request example_route) = Inr args"
    and len: "length args = length (parameters_or_empty (spec example_route))"
    by blast
  from parseOperationArgs_arguments [OF supported' loaded' pass_through_total]
  obtain args' where
    res': "snd (parseOperationArgs example_prototypes pass_through
            (resolving_reader example_body) example_request inherited_route) = Inr args'"
    and len': "length args' = length (parameters_or_empty (spec inherited_route))"
    by blast
  from res have "args = [JSON (JStr ''7''), JSON (JStr ''new''), JSON (JStr ''abc''),
      JSON (JStr ''hello''), JSON example_body]"
    by (simp add: example_parse)
  moreover from res' have "args' = [JBuiltin ''Object'', JBuiltin ''Object.prototype.toString'',
      JBuiltin ''Object.prototype'', JUndefined]"
    by (simp add: inherited_parse)
  ultimately show ?thesis using res res' by simp
qed

theorem parseOperationArgs_rejects_counterexample:
  "parameters_or_empty (spec body_only_route)
     = [Parameter \<lparr>name = ''data'', in_loc = ''body''\<rparr>]
   \<and> snd (parseOperationArgs example_prototypes pass_through (resolving_reader example_body)
            text_plain_request body_only_route)
       = Inl (UnsupportedMediaType ''Content-type text/plain is not supported.'')"
  by (simp add: example_defs parser_defs)

text \<open>
  Claim C2. In every context that binds a controller class and a method name and binds
  the controller-method-metadata key to \<open>AuthMetadataProvider\<close>, where the class has
  had \<open>@authenticate(strategyName, opts)\<close> applied to that method, resolving the
  metadata key returns the metadata the decorator recorded: the strategy name and the
  options passed to it.
\<close>

theorem AuthMetadataProvider_returns_metadata:
  assumes "ctx CONTROLLER_CLASS = Some (To (VClass controllerClass))"
    and "ctx CONTROLLER_METHOD_NAME = Some (To (VString methodName))"
    and "ctx CONTROLLER_METHOD_META = Some (ToProvider AuthMetadataProvider)"
    and "controllerClass = authenticate strategyName opts methodName target"
  shows "context_get ctx CONTROLLER_METHOD_META =
           Inr (VMetadata (Some \<lparr>strategy = strategyName, options = opts\<rparr>))"
  using assms by (simp add: context_get_def AuthMetadataProvider_value_def authenticate_def)

theorem AuthMetadataProvider_returns_metadata_witness:
  "context_get (test_context TestController) CONTROLLER_METHOD_META =
     Inr (VMetadata (Some
       \<lparr>strategy = ''my-strategy'',
        options =
          JSON (JObj [(''option1'', JStr ''value1''), (''option2'', JStr ''value2'')])\<rparr>))"
  by (rule AuthMetadataProvider_returns_metadata
            [where controllerClass = TestController and methodName = "''whoAmI''"
               and target = "\<lparr>className = ''TestController'', authMetadata = Map.empty\<rparr>"])
     (simp_all add: test_context_def bind_to_def bind_toProvider_def TestController_def)

text \<open>
  Claim C3, amended. As stated the claim fails: with a \<open>body\<close> parameter in the spec
  and the content type \<open>text/plain\<close> the body is not read
  (the counterexample after the theorem). What holds: \<open>parseOperationArgs\<close> reads
  and parses the request body if and only if the spec has a parameter object whose
  \<open>in\<close> is \<open>formData\<close> or \<open>body\<close> and the content-type header is absent, empty or
  has \<open>json\<close> in it; and when the spec has no such parameter,
  \<open>loadRequestBodyIfNeeded\<close> resolves with \<open>undefined\<close> and touches neither the
  content-type header nor the body.
\<close>

theorem body_parsed_iff:
  "(ParseJsonBody
      \<in> set (fst (parseOperationArgs protos deserialize parseJsonBody request route))
      \<longleftrightarrow> (\<exists>s. Parameter s \<in> set (parameters_or_empty (spec route))
                \<and> (in_loc s = ''formData'' \<or> in_loc s = ''body''))
          \<and> \<not> (\<exists>ct. getContentType protos request = Some ct \<and> ct \<noteq> []
                    \<and> \<not> (\<exists>pre suf. ct = pre @ ''json'' @ suf)))
   \<and> (\<not> (\<exists>s. Parameter s \<in> set (parameters_or_empty (spec route))
              \<and> (in_loc s = ''formData'' \<or> in_loc s = ''body''))
        \<longrightarrow> loadRequestBodyIfNeeded protos parseJsonBody (spec route) request
              = ([], Inr None))"
proof -
  let ?needed = "hasArgumentsFromBody (spec route)"
  let ?bad = "unsupported_contentType (getContentType protos request)"
  have trace: "ParseJsonBody
      \<in> set (fst (loadRequestBodyIfNeeded protos parseJsonBody (spec route) request))
      \<longleftrightarrow> ?needed \<and> \<not> ?bad"
    by (simp add: loadRequestBodyIfNeeded_def Let_def)
  show ?thesis
    using trace load_not_needed [of "spec route" protos parseJsonBody request]
    by (simp add: parseOperationArgs_fst hasArgumentsFromBody_iff unsupported_contentType_iff)
qed

theorem body_parsed_iff_witness:
  "ParseJsonBody \<in> set (fst (parseOperationArgs example_prototypes pass_through
                               (resolving_reader example_body) example_request example_route))
   \<and> ParseJsonBody \<notin> set (fst (parseOperationArgs example_prototypes pass_through
                               (resolving_reader example_body) text_plain_request
                               body_only_route))
   \<and> loadRequestBodyIfNeeded example_prototypes (resolving_reader example_body)
        (spec ref_route) text_plain_request = ([], Inr None)"
proof -
  note a = body_parsed_iff [of example_prototypes pass_through "resolving_reader example_body"
      example_request example_route]
  note b = body_parsed_iff [of example_prototypes pass_through "resolving_reader example_body"
      text_plain_request body_only_route]
  note c = body_parsed_iff [of example_prototypes pass_through "resolving_reader example_body"
      text_plain_request ref_route]
  have needed: "\<exists>s. Parameter s \<in> set (parameters_or_empty (spec example_route))
                \<and> (in_loc s = ''formData'' \<or> in_loc s = ''body'')"
    by (rule exI [of _ "\<lparr>name = ''data'', in_loc = ''body''\<rparr>"])
       (simp add: example_route_def example_spec_def parameters_or_empty_def)
  have a': "(\<exists>s. Parameter s \<in> set (parameters_or_empty (spec example_route))
                \<and> (in_loc s = ''formData'' \<or> in_loc s = ''body''))
          \<and> \<not> (\<exists>ct. getContentType example_prototypes example_request = Some ct \<and> ct \<noteq> []
                    \<and> \<not> (\<exists>pre suf. ct = pre @ ''json'' @ suf))"
    using needed example_content_type_accepted [of example_prototypes] by (intro conjI)
  have b': "\<not> ((\<exists>s. Parameter s \<in> set (parameters_or_empty (spec body_only_route))
                \<and> (in_loc s = ''formData'' \<or> in_loc s = ''body''))
          \<and> \<not> (\<exists>ct. getContentType example_prototypes text_plain_request = Some ct
                    \<and> ct \<noteq> [] \<and> \<not> (\<exists>pre suf. ct = pre @ ''json'' @ suf)))"
    using text_plain_no_json example_content_type(2) by simp
  have c': "\<not> (\<exists>s. Parameter s \<in> set (parameters_or_empty (spec ref_route))
              \<and> (in_loc s = ''formData'' \<or> in_loc s = ''body''))"
    by (simp add: ref_route_def ref_spec_def parameters_or_empty_def)
  from a [THEN conjunct1, THEN iffD2, OF a'] b [THEN conjunct1] b'
    c [THEN conjunct2, THEN mp, OF c']
  show ?thesis by blast
qed

theorem body_not_parsed_counterexample:
  "hasArgumentsFromBody (spec body_only_route)
   \<and> fst (parseOperationArgs example_prototypes pass_through (resolving_reader example_body)
            text_plain_request body_only_route) = [ReadContentType]"
  by (simp add: example_defs parser_defs)

text \<open>
  Claim C4, amended. As stated the claim fails: a content-type header that is the
  empty string is defined and has no \<open>json\<close> in it, yet the body is parsed and the
  promise resolves (the counterexample after the theorem). What holds: given a
  spec with a parameter object whose \<open>in\<close> is \<open>formData\<close> or \<open>body\<close>,
  \<open>loadRequestBodyIfNeeded\<close> rejects if and only if the content-type header is a
  non-empty string without \<open>json\<close> in it or parsing the body fails. In the first
  case the rejection is the \<open>UnsupportedMediaType\<close> error naming the content type,
  with status code 415, and the body is not parsed. Otherwise the body is parsed:
  when the parser rejects with an error, the rejection is that error with
  \<open>statusCode\<close> set to 400, and when it resolves, so does the load, with the parsed
  body. Whenever the load rejects, \<open>parseOperationArgs\<close> rejects with the same error.
\<close>

theorem loadRequestBodyIfNeeded_rejects_iff:
  assumes needed:
    "\<exists>s. Parameter s \<in> set (parameters_or_empty operationSpec)
        \<and> (in_loc s = ''formData'' \<or> in_loc s = ''body'')"
  shows
    "((\<exists>e. snd (loadRequestBodyIfNeeded protos parseJsonBody operationSpec request) = Inl e)
        \<longleftrightarrow> (\<exists>ct. getContentType protos request = Some ct \<and> ct \<noteq> []
                 \<and> \<not> (\<exists>pre suf. ct = pre @ ''json'' @ suf))
            \<or> (\<exists>e. parseJsonBody request = Inl e))
     \<and> (\<forall>ct. getContentType protos request = Some ct \<and> ct \<noteq> []
              \<and> \<not> (\<exists>pre suf. ct = pre @ ''json'' @ suf)
          \<longrightarrow> loadRequestBodyIfNeeded protos parseJsonBody operationSpec request =
                ([ReadContentType],
                 Inl (UnsupportedMediaType
                        (''Content-type '' @ ct @ '' is not supported.'')))
              \<and> statusCode (UnsupportedMediaType
                              (''Content-type '' @ ct @ '' is not supported.'')) = Some 415)
     \<and> (\<forall>e'. \<not> (\<exists>ct. getContentType protos request = Some ct \<and> ct \<noteq> []
                     \<and> \<not> (\<exists>pre suf. ct = pre @ ''json'' @ suf))
               \<and> parseJsonBody request = Inl e'
          \<longrightarrow> loadRequestBodyIfNeeded protos parseJsonBody operationSpec request =
                ([ReadContentType, ParseJsonBody], Inl (e'\<lparr>statusCode := Some 400\<rparr>))
              \<and> statusCode (e'\<lparr>statusCode := Some 400\<rparr>) = Some 400)
     \<and> (\<forall>b. \<not> (\<exists>ct. getContentType protos request = Some ct \<and> ct \<noteq> []
                     \<and> \<not> (\<exists>pre suf. ct = pre @ ''json'' @ suf))
               \<and> parseJsonBody request = Inr b
          \<longrightarrow> loadRequestBodyIfNeeded protos parseJsonBody operationSpec request =
                ([ReadContentType, ParseJsonBody], Inr (Some b)))
     \<and> (\<forall>e. snd (loadRequestBodyIfNeeded protos parseJsonBody operationSpec request) = Inl e
          \<longrightarrow> (statusCode e = Some 415 \<and> errorClass e = UnsupportedMediaTypeError
                 \<and> ParseJsonBody
                      \<notin> set (fst (loadRequestBodyIfNeeded protos parseJsonBody operationSpec
                                     request)))
              \<or> (statusCode e = Some 400
                 \<and> (\<exists>e'. parseJsonBody request = Inl e' \<and> e = e'\<lparr>statusCode := Some 400\<rparr>)))
     \<and> (\<forall>e pathPs.
           snd (loadRequestBodyIfNeeded protos parseJsonBody operationSpec request) = Inl e
           \<longrightarrow> snd (parseOperationArgs protos deserialize parseJsonBody request
                      \<lparr>spec = operationSpec, pathParams = pathPs\<rparr>) = Inl e)"
proof -
  from needed have has: "hasArgumentsFromBody operationSpec"
    by (simp add: hasArgumentsFromBody_iff)
  let ?load = "loadRequestBodyIfNeeded protos parseJsonBody operationSpec request"
  let ?bad = "\<exists>ct. getContentType protos request = Some ct \<and> ct \<noteq> []
                 \<and> \<not> (\<exists>pre suf. ct = pre @ ''json'' @ suf)"
  show ?thesis
  proof (cases ?bad)
    case True
    then obtain ct where ct: "getContentType protos request = Some ct" "ct \<noteq> []"
      "\<not> (\<exists>pre suf. ct = pre @ ''json'' @ suf)" by blast
    from load_unsupported [OF has ct, of parseJsonBody]
    have load: "?load = ([ReadContentType],
        Inl (UnsupportedMediaType (''Content-type '' @ ct @ '' is not supported.'')))" .
    show ?thesis
      apply (intro conjI allI impI)
      subgoal using True load by simp
      subgoal using load ct by simp
      subgoal by (simp add: UnsupportedMediaType_def)
      subgoal using True by blast
      subgoal by simp
      subgoal using True by blast
      subgoal using load by (auto simp: UnsupportedMediaType_def)
      subgoal by (simp add: parseOperationArgs_snd)
      done
  next
    case False
    then have "\<not> unsupported_contentType (getContentType protos request)"
      by (simp add: unsupported_contentType_iff)
    from load_parses [OF has this, of parseJsonBody]
    have load: "?load = ([ReadContentType, ParseJsonBody],
        parseJsonBody_catch parseJsonBody request)" .
    show ?thesis
      apply (intro conjI allI impI)
      subgoal using False load by (auto simp: catch_Inl_iff)
      subgoal using False by blast
      subgoal by (simp add: UnsupportedMediaType_def)
      subgoal using load by (simp add: parseJsonBody_catch_def)
      subgoal by simp
      subgoal using load by (simp add: parseJsonBody_catch_def)
      subgoal using load by (auto simp: catch_Inl_iff)
      subgoal by (simp add: parseOperationArgs_snd)
      done
  qed
qed

theorem loadRequestBodyIfNeeded_rejects_iff_witness:
  "loadRequestBodyIfNeeded example_prototypes (resolving_reader example_body) body_only_spec
     text_plain_request
     = ([ReadContentType],
        Inl (UnsupportedMediaType ''Content-type text/plain is not supported.''))
   \<and> loadRequestBodyIfNeeded example_prototypes (rejecting_reader syntax_error) body_only_spec
       example_request
     = ([ReadContentType, ParseJsonBody], Inl (syntax_error\<lparr>statusCode := Some 400\<rparr>))
   \<and> statusCode (syntax_error\<lparr>statusCode := Some 400\<rparr>) = Some 400
   \<and> loadRequestBodyIfNeeded example_prototypes (resolving_reader example_body) body_only_spec
       example_request
     = ([ReadContentType, ParseJsonBody], Inr (Some example_body))"
proof -
  note unsupported =
    loadRequestBodyIfNeeded_rejects_iff
      [OF body_only_needed, of example_prototypes "resolving_reader example_body"
         text_plain_request pass_through]
  note failing =
    loadRequestBodyIfNeeded_rejects_iff
      [OF body_only_needed, of example_prototypes "rejecting_reader syntax_error"
         example_request pass_through]
  note parsing =
    loadRequestBodyIfNeeded_rejects_iff
      [OF body_only_needed, of example_prototypes "resolving_reader example_body"
         example_request pass_through]
  have ct: "getContentType example_prototypes text_plain_request = Some ''text/plain''
      \<and> ''text/plain'' \<noteq> []
      \<and> \<not> (\<exists>pre suf. ''text/plain'' = pre @ ''json'' @ suf)"
    using text_plain_no_json example_content_type(2) by simp
  have first: "loadRequestBodyIfNeeded example_prototypes (resolving_reader example_body)
      body_only_spec text_plain_request
      = ([ReadContentType],
         Inl (UnsupportedMediaType (''Content-type '' @ ''text/plain'' @ '' is not supported.'')))"
    using unsupported [THEN conjunct2, THEN conjunct1, rule_format, OF ct, THEN conjunct1] .
  have rejects: "\<not> (\<exists>ct. getContentType example_prototypes example_request = Some ct
        \<and> ct \<noteq> [] \<and> \<not> (\<exists>pre suf. ct = pre @ ''json'' @ suf))
      \<and> rejecting_reader syntax_error example_request = Inl syntax_error"
    using example_content_type_accepted [of example_prototypes]
    by (simp add: rejecting_reader_def)
  have resolves: "\<not> (\<exists>ct. getContentType example_prototypes example_request = Some ct
        \<and> ct \<noteq> [] \<and> \<not> (\<exists>pre suf. ct = pre @ ''json'' @ suf))
      \<and> resolving_reader example_body example_request = Inr example_body"
    using example_content_type_accepted [of example_prototypes]
    by (simp add: resolving_reader_def)
  note second =
    failing [THEN conjunct2, THEN conjunct2, THEN conjunct1, rule_format, OF rejects]
  note third =
    parsing [THEN conjunct2, THEN conjunct2, THEN conjunct2, THEN conjunct1, rule_format,
      OF resolves]
  from first second third show ?thesis by simp
qed

theorem empty_content_type_counterexample:
  "hasArgumentsFromBody body_only_spec
   \<and> getContentType example_prototypes empty_type_request = Some []
   \<and> \<not> test_json []
   \<and> loadRequestBodyIfNeeded example_prototypes (resolving_reader example_body)
       body_only_spec empty_type_request
       = ([ReadContentType, ParseJsonBody], Inr (Some example_body))"
  by (simp add: example_defs parser_defs)

text \<open>
  Claim C5, amended. As stated the claim fails: on a spec whose parameters are all
  parameter objects with a supported \<open>in\<close>, \<open>buildOperationArguments\<close> throws when
  \<open>deserialize\<close> throws (the counterexample after the theorem). What holds:
  \<open>buildOperationArguments\<close> throws if and only if the parameter list has a reference
  object, a parameter object whose \<open>in\<close> is outside \<open>query\<close>, \<open>path\<close>, \<open>header\<close>,
  \<open>formData\<close>, \<open>body\<close>, or a parameter object on whose value \<open>deserialize\<close> throws.
  The error is that of the first such entry, every entry before it having yielded an
  argument: the \<open>Error\<close> on \<open>$ref\<close> parameters for a reference, \<open>NotImplemented\<close>
  naming the location for an unsupported \<open>in\<close>, the error of \<open>deserialize\<close> otherwise.
  For a spec whose parameters are all supported and on whose values \<open>deserialize\<close>
  returns, it returns an array with one argument per parameter, and for a spec whose
  parameters are absent or empty it returns the empty array.
\<close>

theorem buildOperationArguments_throws_iff:
  \<open>((\<exists>e. buildOperationArguments protos deserialize operationSpec request pathPs body = Inl e)
        \<longleftrightarrow> (\<exists>p\<in>set (parameters_or_empty operationSpec).
               (\<exists>r. p = Reference r) \<or>
               (\<exists>s. p = Parameter s \<and> in_loc s \<notin> supported_locations) \<or>
               (\<exists>s raw e. p = Parameter s \<and> switch_in protos request pathPs body s = Inr raw
                    \<and> deserialize raw s = Inl e)))
     \<and> (\<forall>e. buildOperationArguments protos deserialize operationSpec request pathPs body
              = Inl e
          \<longrightarrow> (\<exists>pre p post.
                 parameters_or_empty operationSpec = pre @ p # post
                 \<and> (\<forall>q\<in>set pre. \<exists>s raw v. q = Parameter s \<and> in_loc s \<in> supported_locations
                        \<and> switch_in protos request pathPs body s = Inr raw
                        \<and> deserialize raw s = Inr v)
                 \<and> ((\<exists>r. p = Reference r
                        \<and> e = Error ''$ref parameters are not supported yet.'')
                    \<or> (\<exists>s. p = Parameter s \<and> in_loc s \<notin> supported_locations
                          \<and> e = NotImplemented
                                (''Parameters with "in: '' @ in_loc s
                                   @ ''" are not supported yet.''))
                    \<or> (\<exists>s raw. p = Parameter s \<and> in_loc s \<in> supported_locations
                          \<and> switch_in protos request pathPs body s = Inr raw
                          \<and> deserialize raw s = Inl e))))
     \<and> ((\<forall>p\<in>set (parameters_or_empty operationSpec).
            \<exists>s. p = Parameter s \<and> in_loc s \<in> supported_locations)
         \<and> (\<forall>s raw. Parameter s \<in> set (parameters_or_empty operationSpec)
                \<longrightarrow> switch_in protos request pathPs body s = Inr raw
                \<longrightarrow> (\<exists>v. deserialize raw s = Inr v))
          \<longrightarrow> (\<exists>args. buildOperationArguments protos deserialize operationSpec request pathPs
                          body = Inr args
                   \<and> length args = length (parameters_or_empty operationSpec)))
     \<and> (parameters operationSpec = None \<or> parameters operationSpec = Some []
          \<longrightarrow> buildOperationArguments protos deserialize operationSpec request pathPs body
                = Inr [])\<close>
proof -
  define S where "S = supported_locations"
  define ref_error where "ref_error = Error ''$ref parameters are not supported yet.''"
  define in_error where
    \<open>in_error = (\<lambda>s :: ParameterObject. NotImplemented
                        (''Parameters with "in: '' @ in_loc s @ ''" are not supported yet.''))\<close>
  define ps where "ps = parameters_or_empty operationSpec"
  define B where "B = loop_body protos deserialize request pathPs body"
  define run where
    "run = buildOperationArguments protos deserialize operationSpec request pathPs body"
  define draw where "draw = switch_in protos request pathPs body"
  define finished where
    "finished = (\<lambda>q. \<exists>s raw v. q = Parameter s \<and> in_loc s \<in> S \<and> draw s = Inr raw
                     \<and> deserialize raw s = Inr v)"
  define refused where
    "refused = (\<lambda>p e. (\<exists>r. p = Reference r \<and> e = ref_error)
                 \<or> (\<exists>s. p = Parameter s \<and> in_loc s \<notin> S \<and> e = in_error s)
                 \<or> (\<exists>s raw. p = Parameter s \<and> in_loc s \<in> S \<and> draw s = Inr raw
                        \<and> deserialize raw s = Inl e))"
  define offends where
    "offends = (\<lambda>p. (\<exists>r. p = Reference r)
                 \<or> (\<exists>s. p = Parameter s \<and> in_loc s \<notin> S)
                 \<or> (\<exists>s raw e. p = Parameter s \<and> draw s = Inr raw
                        \<and> deserialize raw s = Inl e))"
  have draw_S: "draw s = Inr raw \<Longrightarrow> in_loc s \<in> S" for s raw
    unfolding draw_def S_def by (rule switch_in_Inr_supported)
  have B_Inr: "(\<exists>v. B q = Inr v) \<longleftrightarrow> finished q" for q
  proof -
    have "(\<exists>v. B q = Inr v)
        \<longleftrightarrow> (\<exists>s raw v. q = Parameter s \<and> draw s = Inr raw \<and> deserialize raw s = Inr v)"
      unfolding B_def draw_def loop_body_Inr_iff by blast
    also have "\<dots> \<longleftrightarrow> finished q"
      unfolding finished_def using draw_S by blast
    finally show ?thesis .
  qed
  have B_Inl: "B p = Inl e \<longleftrightarrow> refused p e" for p e
    unfolding B_def refused_def draw_def S_def ref_error_def in_error_def
    by (rule loop_body_Inl_iff)
  have refused_offends: "refused p e \<Longrightarrow> offends p" for p e
    unfolding refused_def offends_def by blast
  have offends_not_finished: "offends p \<Longrightarrow> \<not> finished p" for p
    unfolding finished_def offends_def using draw_S by fastforce
  have run_Inl: "run = Inl e \<longleftrightarrow>
      (\<exists>pre p post. ps = pre @ p # post \<and> (\<forall>q\<in>set pre. \<exists>v. B q = Inr v) \<and> B p = Inl e)"
    for e
    unfolding run_def ps_def B_def by (rule build_Inl_iff)
  have run_Inr: "run = Inr args \<longleftrightarrow> list_all2 (\<lambda>p v. B p = Inr v) ps args" for args
    unfolding run_def ps_def B_def by (rule build_Inr_iff)
  have first: "\<exists>pre p post. ps = pre @ p # post \<and> (\<forall>q\<in>set pre. finished q) \<and> refused p e"
    if "run = Inl e" for e
    using that unfolding run_Inl B_Inl B_Inr .
  have throws: "(\<exists>e. run = Inl e) \<longleftrightarrow> (\<exists>p\<in>set ps. offends p)"
  proof
    assume "\<exists>e. run = Inl e"
    then obtain e where "run = Inl e" ..
    from first [OF this] obtain pre p post where "ps = pre @ p # post" "refused p e"
      by blast
    then have "p \<in> set ps" "offends p" using refused_offends by simp_all
    then show "\<exists>p\<in>set ps. offends p" ..
  next
    assume "\<exists>p\<in>set ps. offends p"
    then obtain p where mem: "p \<in> set ps" and bad: "offends p" ..
    show "\<exists>e. run = Inl e"
    proof (cases run)
      case (Inl e)
      then show ?thesis ..
    next
      case (Inr args)
      then have "list_all2 (\<lambda>p v. B p = Inr v) ps args" by (simp only: run_Inr)
      from this mem have "\<exists>v. B p = Inr v" by (rule list_all2_memD)
      then have "finished p" by (simp only: B_Inr)
      with offends_not_finished [OF bad] show ?thesis ..
    qed
  qed
  have returns: "\<exists>args. run = Inr args \<and> length args = length ps"
    if "(\<forall>p\<in>set ps. \<exists>s. p = Parameter s \<and> in_loc s \<in> S)
         \<and> (\<forall>s raw. Parameter s \<in> set ps \<longrightarrow> draw s = Inr raw
                \<longrightarrow> (\<exists>v. deserialize raw s = Inr v))"
  proof -
    from that have a: "\<forall>s raw. Parameter s \<in> set (parameters_or_empty operationSpec)
        \<longrightarrow> switch_in protos request pathPs body s = Inr raw
        \<longrightarrow> (\<exists>v. deserialize raw s = Inr v)"
      and b: "\<forall>p\<in>set (parameters_or_empty operationSpec).
        \<exists>s. p = Parameter s \<and> in_loc s \<in> supported_locations"
      unfolding ps_def draw_def S_def by (rule conjunct2, rule conjunct1)
    from build_all_supported [OF a b] obtain args where args: "run = Inr args"
      unfolding run_def ..
    then have "list_all2 (\<lambda>p v. B p = Inr v) ps args" by (simp only: run_Inr)
    then have "length args = length ps" by (simp add: list_all2_lengthD)
    with args show ?thesis by blast
  qed
  have no_params: "run = Inr []"
    if "parameters operationSpec = None \<or> parameters operationSpec = Some []"
    using that unfolding run_def
    by (auto simp: buildOperationArguments_def parameters_or_empty_def)
  have "((\<exists>e. run = Inl e) \<longleftrightarrow> (\<exists>p\<in>set ps. offends p))
     \<and> (\<forall>e. run = Inl e
          \<longrightarrow> (\<exists>pre p post. ps = pre @ p # post \<and> (\<forall>q\<in>set pre. finished q) \<and> refused p e))
     \<and> ((\<forall>p\<in>set ps. \<exists>s. p = Parameter s \<and> in_loc s \<in> S)
         \<and> (\<forall>s raw. Parameter s \<in> set ps \<longrightarrow> draw s = Inr raw
                \<longrightarrow> (\<exists>v. deserialize raw s = Inr v))
          \<longrightarrow> (\<exists>args. run = Inr args \<and> length args = length ps))
     \<and> (parameters operationSpec = None \<or> parameters operationSpec = Some []
          \<longrightarrow> run = Inr [])"
    apply (intro conjI allI impI)
       apply (rule throws)
      apply (erule first)
     apply (erule returns)
    apply (erule no_params)
    done
  then show ?thesis
    unfolding offends_def refused_def finished_def draw_def run_def ps_def S_def
      ref_error_def in_error_def .
qed

theorem buildOperationArguments_throws_iff_witness:
  "(\<exists>e. buildOperationArguments example_prototypes pass_through ref_spec example_request
           (pathParams example_route) None = Inl e)
   \<and> (\<exists>e. buildOperationArguments example_prototypes pass_through cookie_spec example_request
           (pathParams example_route) None = Inl e)
   \<and> (\<exists>e. buildOperationArguments example_prototypes (throwing_deserializer invalid_value)
           example_spec example_request (pathParams example_route) (Some example_body)
           = Inl e)
   \<and> (\<exists>args. buildOperationArguments example_prototypes pass_through example_spec
           example_request (pathParams example_route) (Some example_body) = Inr args
         \<and> length args = 5)
   \<and> buildOperationArguments example_prototypes pass_through no_parameters_spec
        example_request (pathParams example_route) None = Inr []"
proof -
  note refused =
    buildOperationArguments_throws_iff
      [of example_prototypes pass_through ref_spec example_request
         "pathParams example_route" None]
  note unsupported =
    buildOperationArguments_throws_iff
      [of example_prototypes pass_through cookie_spec example_request
         "pathParams example_route" None]
  note thrown =
    buildOperationArguments_throws_iff
      [of example_prototypes "throwing_deserializer invalid_value" example_spec
         example_request "pathParams example_route" "Some example_body"]
  note accepted =
    buildOperationArguments_throws_iff
      [of example_prototypes pass_through example_spec example_request
         "pathParams example_route" "Some example_body"]
  note none =
    buildOperationArguments_throws_iff
      [of example_prototypes pass_through no_parameters_spec example_request
         "pathParams example_route" None]
  have absent: "parameters no_parameters_spec = None \<or> parameters no_parameters_spec = Some []"
    by (simp add: no_parameters_spec_def)
  have r: "\<exists>p\<in>set (parameters_or_empty ref_spec).
      (\<exists>r. p = Reference r) \<or>
      (\<exists>s. p = Parameter s \<and> in_loc s \<notin> supported_locations) \<or>
      (\<exists>s raw e. p = Parameter s
         \<and> switch_in example_prototypes example_request (pathParams example_route) None s
             = Inr raw
         \<and> pass_through raw s = Inl e)"
    using ref_spec_offends by (elim bexE exE) (intro bexI disjI1 exI, assumption+)
  have u: "\<exists>p\<in>set (parameters_or_empty cookie_spec).
      (\<exists>r. p = Reference r) \<or>
      (\<exists>s. p = Parameter s \<and> in_loc s \<notin> supported_locations) \<or>
      (\<exists>s raw e. p = Parameter s
         \<and> switch_in example_prototypes example_request (pathParams example_route) None s
             = Inr raw
         \<and> pass_through raw s = Inl e)"
    using cookie_spec_offends
    by (elim bexE exE conjE) (intro bexI disjI2 disjI1 exI conjI, assumption+)
  have "switch_in example_prototypes example_request (pathParams example_route)
      (Some example_body) \<lparr>name = ''id'', in_loc = ''path''\<rparr> = Inr (JSON (JStr ''7''))
      \<and> throwing_deserializer invalid_value (JSON (JStr ''7''))
          \<lparr>name = ''id'', in_loc = ''path''\<rparr> = Inl invalid_value"
    by (simp add: switch_in_def lookup_def example_route_def throwing_deserializer_def)
  then have t: "\<exists>p\<in>set (parameters_or_empty example_spec).
      (\<exists>r. p = Reference r) \<or>
      (\<exists>s. p = Parameter s \<and> in_loc s \<notin> supported_locations) \<or>
      (\<exists>s raw e. p = Parameter s
         \<and> switch_in example_prototypes example_request (pathParams example_route)
             (Some example_body) s = Inr raw
         \<and> throwing_deserializer invalid_value raw s = Inl e)"
    unfolding example_spec_parameters
    by (intro bexI [of _ "Parameter \<lparr>name = ''id'', in_loc = ''path''\<rparr>"] disjI2) auto
  have good: "(\<forall>p\<in>set (parameters_or_empty example_spec).
            \<exists>s. p = Parameter s \<and> in_loc s \<in> supported_locations)
         \<and> (\<forall>s raw. Parameter s \<in> set (parameters_or_empty example_spec)
                \<longrightarrow> switch_in example_prototypes example_request (pathParams example_route)
                      (Some example_body) s = Inr raw
                \<longrightarrow> (\<exists>v. pass_through raw s = Inr v))"
    using example_supported pass_through_total by (intro conjI)
  have five: "length (parameters_or_empty example_spec) = 5"
    by (simp add: example_spec_parameters)
  from refused [THEN conjunct1, THEN iffD2, OF r]
    unsupported [THEN conjunct1, THEN iffD2, OF u]
    thrown [THEN conjunct1, THEN iffD2, OF t]
    accepted [THEN conjunct2, THEN conjunct2, THEN conjunct1, THEN mp, OF good]
    none [THEN conjunct2, THEN conjunct2, THEN conjunct2, THEN mp, OF absent]
  show ?thesis by (simp only: five)
qed

theorem deserializer_throws_counterexample:
  "parameters_or_empty example_spec =
     [Parameter \<lparr>name = ''id'', in_loc = ''path''\<rparr>,
      Parameter \<lparr>name = ''filter'', in_loc = ''query''\<rparr>,
      Parameter \<lparr>name = ''X-Token'', in_loc = ''header''\<rparr>,
      Parameter \<lparr>name = ''title'', in_loc = ''formData''\<rparr>,
      Parameter \<lparr>name = ''data'', in_loc = ''body''\<rparr>]
   \<and> buildOperationArguments example_prototypes (throwing_deserializer invalid_value)
        example_spec example_request (pathParams example_route) (Some example_body)
      = Inl invalid_value"
  by (simp add: example_defs parser_defs)

text \<open>
  Claim C6. In every context that binds a controller class and a method name and binds
  the controller-method-metadata key to \<open>AuthMetadataProvider\<close>, where no
  authentication metadata is recorded for that method of the class, resolving the
  metadata key succeeds and yields \<open>undefined\<close>.
\<close>

theorem AuthMetadataProvider_undefined_without_metadata:
  assumes "ctx CONTROLLER_CLASS = Some (To (VClass controllerClass))"
    and "ctx CONTROLLER_METHOD_NAME = Some (To (VString methodName))"
    and "ctx CONTROLLER_METHOD_META = Some (ToProvider AuthMetadataProvider)"
    and "authMetadata controllerClass methodName = None"
  shows "context_get ctx CONTROLLER_METHOD_META = Inr (VMetadata None)"
  using assms by (simp add: context_get_def AuthMetadataProvider_value_def)

theorem AuthMetadataProvider_undefined_without_metadata_witness:
  "context_get (test_context ControllerWithNoMetadata) CONTROLLER_METHOD_META =
     Inr (VMetadata None)"
  by (rule AuthMetadataProvider_undefined_without_metadata
            [where controllerClass = ControllerWithNoMetadata and methodName = "''whoAmI''"])
     (simp_all add: test_context_def bind_to_def bind_toProvider_def
        ControllerWithNoMetadata_def)




text \<open>
  Claim C8. A call of \<open>buildOperationArguments\<close> leaves the operation spec with its
  parameter list, the path parameters, the request's query and headers, the body and
  the prototype objects as they were, and every array that existed before the call
  keeps its contents; the call allocates one array, at an address that was free, and
  that array is the one it returns.
\<close>

theorem buildOperationArguments_frame:
  assumes "buildOperationArguments_st deserialize s = (s', r)"
  shows "st_operationSpec s' = st_operationSpec s
       \<and> parameters (st_operationSpec s') = parameters (st_operationSpec s)
       \<and> st_pathParams s' = st_pathParams s
       \<and> query (st_request s') = query (st_request s)
       \<and> headers (st_request s') = headers (st_request s)
       \<and> st_body s' = st_body s
       \<and> st_prototypes s' = st_prototypes s
       \<and> (\<forall>b<length (st_arrays s). st_arrays s' ! b = st_arrays s ! b)
       \<and> length (st_arrays s') = Suc (length (st_arrays s))
       \<and> (\<forall>a. r = Inr a \<longrightarrow> a = length (st_arrays s))"
proof -
  let ?s1 = "s\<lparr>st_arrays := st_arrays s @ [[]]\<rparr>"
  let ?a = "length (st_arrays s)"
  from assms have "buildOperationArguments_loop_st deserialize ?a
      (parameters_or_empty (st_operationSpec s)) ?s1 = (s', r)"
    by (simp add: buildOperationArguments_st_def new_array_def)
  from loop_st_frame [OF this] show ?thesis by (auto simp: nth_append)
qed

theorem buildOperationArguments_frame_witness:
  "\<exists>s'. buildOperationArguments_st pass_through
           (example_state example_prototypes [[JSON (JNum 1)]]) = (s', Inr 1)
      \<and> st_operationSpec s' = example_spec
      \<and> st_request s' = example_request
      \<and> st_pathParams s' = pathParams example_route
      \<and> st_prototypes s' = example_prototypes
      \<and> st_arrays s' ! 0 = [JSON (JNum 1)]
      \<and> length (st_arrays s') = 2"
proof -
  obtain s' r where run: "buildOperationArguments_st pass_through
      (example_state example_prototypes [[JSON (JNum 1)]]) = (s', r)"
    by (cases "buildOperationArguments_st pass_through
          (example_state example_prototypes [[JSON (JNum 1)]])")
  note frame = buildOperationArguments_frame [OF run]
  have "returned (buildOperationArguments_st pass_through
        (example_state example_prototypes [[JSON (JNum 1)]]))
      = Inr [JSON (JStr ''7''), JSON (JStr ''new''), JSON (JStr ''abc''), JSON (JStr ''hello''),
             JSON example_body]"
    by (simp add: build_st_refines example_state_def example_build)
  then have "returned (s', r)
      = Inr [JSON (JStr ''7''), JSON (JStr ''new''), JSON (JStr ''abc''), JSON (JStr ''hello''),
             JSON example_body]"
    by (simp only: run)
  then obtain a where a: "r = Inr a" by (cases r) (simp_all add: returned_def)
  with frame have "a = 1" by (simp add: example_state_def)
  with a run frame show ?thesis by (simp add: example_state_def)
qed

text \<open>
  Claim C9. For every operation spec whose parameters are all parameter objects with a
  supported \<open>in\<close> (none at all included), a value \<open>parseOperationArgs\<close> resolves with
  is a list with as many entries as the spec has parameters, the \<open>i\<close>-th entry being
  what the loop's turn for the \<open>i\<close>-th parameter yields; and a rejection is either the
  rejection of the body load or an error thrown by the deserializer.
\<close>

theorem parseOperationArgs_one_argument_per_parameter:
  assumes supported:
    "\<forall>p\<in>set (parameters_or_empty (spec route)).
        \<exists>s. p = Parameter s \<and> in_loc s \<in> supported_locations"
  shows
    "(\<forall>args. snd (parseOperationArgs protos deserialize parseJsonBody request route) = Inr args
        \<longrightarrow> (\<exists>body. snd (loadRequestBodyIfNeeded protos parseJsonBody (spec route) request) = Inr body
               \<and> length args = length (parameters_or_empty (spec route))
               \<and> (\<forall>i<length args.
                     loop_body protos deserialize request (pathParams route) body
                       (parameters_or_empty (spec route) ! i) = Inr (args ! i))))
     \<and> (\<forall>e. snd (parseOperationArgs protos deserialize parseJsonBody request route) = Inl e
          \<longrightarrow> snd (loadRequestBodyIfNeeded protos parseJsonBody (spec route) request) = Inl e
              \<or> (\<exists>s raw. Parameter s \<in> set (parameters_or_empty (spec route))
                    \<and> deserialize raw s = Inl e))"
proof (intro conjI allI impI)
  fix args
  assume res: "snd (parseOperationArgs protos deserialize parseJsonBody request route) = Inr args"
  then obtain body where
    body: "snd (loadRequestBodyIfNeeded protos parseJsonBody (spec route) request) = Inr body"
    and run: "buildOperationArguments protos deserialize (spec route) request (pathParams route) body
                = Inr args"
    by (auto simp: parseOperationArgs_snd split: sum.splits)
  from run have all2: "list_all2
      (\<lambda>p v. loop_body protos deserialize request (pathParams route) body p = Inr v)
      (parameters_or_empty (spec route)) args"
    by (simp add: build_Inr_iff)
  then have len: "length args = length (parameters_or_empty (spec route))"
    by (simp add: list_all2_lengthD)
  have "\<forall>i<length args. loop_body protos deserialize request (pathParams route) body
          (parameters_or_empty (spec route) ! i) = Inr (args ! i)"
    using list_all2_nthD [OF all2] len by simp
  with body len
  show "\<exists>body. snd (loadRequestBodyIfNeeded protos parseJsonBody (spec route) request) = Inr body
          \<and> length args = length (parameters_or_empty (spec route))
          \<and> (\<forall>i<length args.
                loop_body protos deserialize request (pathParams route) body
                  (parameters_or_empty (spec route) ! i) = Inr (args ! i))"
    by blast
next
  fix e
  assume res: "snd (parseOperationArgs protos deserialize parseJsonBody request route) = Inl e"
  show "snd (loadRequestBodyIfNeeded protos parseJsonBody (spec route) request) = Inl e
          \<or> (\<exists>s raw. Parameter s \<in> set (parameters_or_empty (spec route))
                \<and> deserialize raw s = Inl e)"
  proof (cases "snd (loadRequestBodyIfNeeded protos parseJsonBody (spec route) request)")
    case (Inl e')
    with res show ?thesis by (simp add: parseOperationArgs_snd)
  next
    case (Inr body)
    with res have "buildOperationArguments protos deserialize (spec route) request (pathParams route)
        body = Inl e"
      by (simp add: parseOperationArgs_snd)
    then obtain pre p post where eq: "parameters_or_empty (spec route) = pre @ p # post"
      and bad: "loop_body protos deserialize request (pathParams route) body p = Inl e"
      by (auto simp: build_Inl_iff)
    from eq have mem: "p \<in> set (parameters_or_empty (spec route))" by simp
    with supported obtain s where s: "p = Parameter s" "in_loc s \<in> supported_locations"
      by blast
    then obtain raw where raw: "switch_in protos request (pathParams route) body s = Inr raw"
      using switch_in_supported by blast
    with bad s have "deserialize raw s = Inl e" by simp
    with mem s show ?thesis by blast
  qed
qed

theorem parseOperationArgs_one_argument_per_parameter_witness:
  "\<exists>args body.
      snd (parseOperationArgs example_prototypes pass_through (resolving_reader example_body)
             example_request example_route) = Inr args
    \<and> snd (loadRequestBodyIfNeeded example_prototypes (resolving_reader example_body) (spec example_route)
             example_request) = Inr body
    \<and> length args = length (parameters_or_empty (spec example_route))
    \<and> length args = 5"
proof -
  have sp: "spec example_route = example_spec" by (simp add: example_route_def)
  have supported: "\<forall>p\<in>set (parameters_or_empty (spec example_route)).
      \<exists>s. p = Parameter s \<and> in_loc s \<in> supported_locations"
    using example_supported by (simp only: sp)
  have res: "snd (parseOperationArgs example_prototypes pass_through (resolving_reader example_body)
      example_request example_route)
      = Inr [JSON (JStr ''7''), JSON (JStr ''new''), JSON (JStr ''abc''), JSON (JStr ''hello''),
         JSON example_body]"
    by (simp add: example_parse)
  from parseOperationArgs_one_argument_per_parameter
         [OF supported, of example_prototypes pass_through "resolving_reader example_body"
            example_request,
          THEN conjunct1, rule_format, OF res]
  obtain body where
    "snd (loadRequestBodyIfNeeded example_prototypes (resolving_reader example_body) (spec example_route)
            example_request) = Inr body"
    "length [JSON (JStr ''7''), JSON (JStr ''new''), JSON (JStr ''abc''), JSON (JStr ''hello''),
         JSON example_body]
       = length (parameters_or_empty (spec example_route))"
    by blast
  with res show ?thesis by simp
qed

end
